theory Spec2Isabelle
  imports Main
begin

section \<open>Krono: a timezone-aware instant type (src/src/index.ts)\<close>

text \<open>
  The development embeds the arithmetic, parsing and construction code of
  \<^verbatim>\<open>src/src/index.ts\<close>. Timestamps are integers (milliseconds since the epoch);
  a JavaScript Number that may be NaN is an \<open>int option\<close> with \<open>None\<close> for NaN,
  and the caller-supplied numbers that the constructor validates are values of the
  type \<open>number\<close>, which also has the two infinities. Amounts and field values are
  integers; fractional timestamps and fractional, infinite or NaN amounts are not modelled.

  The source computes with IEEE doubles, the model with integers. For integer-valued
  operands the two agree wherever the exact result is a valid timestamp: such a result and
  the operands that lead to it are below \<open>2 ^ 54\<close> in absolute value and are computed
  exactly. Where the exact result is beyond the range, the double result is beyond the range
  too, or it is Infinity or NaN; the constructor rejects all of these with the generic
  error, under one of two messages. The model does not tell the two messages apart.
\<close>

subsection \<open>Types and errors\<close>

datatype TimeUnit = Millisecond | Second | Minute | Hour | Day | Week | Month | Year

datatype number = Num int | NaN | PosInfinity | NegInfinity

text \<open>
  The three error classes. \<open>KronoError\<close> is the base class thrown directly (the generic
  domain error); the two subclasses are separate constructors. Messages are reduced to a tag;
  \<open>BadTimestamp\<close> stands for both messages of \<^verbatim>\<open>validateTimestamp\<close>
  (\<^verbatim>\<open>Invalid timestamp\<close> for a Number that is not finite, \<^verbatim>\<open>Timestamp out of range\<close> for
  a finite one beyond 8.64e15).
  \<open>RangeError\<close> is the platform's own exception, thrown by \<^verbatim>\<open>Date.prototype.toISOString\<close>
  on an invalid Date; it is not a \<open>KronoError\<close>.
\<close>

datatype reason =
    BadTimestamp | NoDatesProvided | CannotSetWeek
  | InvalidDateComponents | InvalidDayForMonth | UnrecognizedFormat

datatype kerror =
    KronoError reason | KronoParseError reason | KronoTimezoneError string | RangeError

type_synonym 'a result = "kerror + 'a"

definition bind :: "'a result \<Rightarrow> ('a \<Rightarrow> 'b result) \<Rightarrow> 'b result" where
  "bind r f = (case r of Inl e \<Rightarrow> Inl e | Inr x \<Rightarrow> f x)"

text \<open>Addition and subtraction of Numbers that may be NaN.\<close>

definition nadd :: "int option \<Rightarrow> int option \<Rightarrow> int option" where
  "nadd a b = (case a of None \<Rightarrow> None | Some x \<Rightarrow> (case b of None \<Rightarrow> None | Some y \<Rightarrow> Some (x + y)))"

definition nsub :: "int option \<Rightarrow> int option \<Rightarrow> int option" where
  "nsub a b = (case a of None \<Rightarrow> None | Some x \<Rightarrow> (case b of None \<Rightarrow> None | Some y \<Rightarrow> Some (x - y)))"

definition toNumber :: "int option \<Rightarrow> number" where
  "toNumber a = (case a of None \<Rightarrow> NaN | Some x \<Rightarrow> Num x)"

text \<open>The remainder operator \<^verbatim>\<open>%\<close> of JavaScript truncates towards zero.\<close>

definition js_rem :: "int \<Rightarrow> int \<Rightarrow> int" where
  "js_rem a b = sgn a * (\<bar>a\<bar> mod \<bar>b\<bar>)"

subsection \<open>Constants\<close>

abbreviation MS_PER_SECOND :: int where "MS_PER_SECOND \<equiv> 1000"
abbreviation MS_PER_MINUTE :: int where "MS_PER_MINUTE \<equiv> 60000"
abbreviation MS_PER_HOUR :: int where "MS_PER_HOUR \<equiv> 3600000"
abbreviation MS_PER_DAY :: int where "MS_PER_DAY \<equiv> 86400000"
abbreviation MS_PER_WEEK :: int where "MS_PER_WEEK \<equiv> 604800000"

text \<open>\<^verbatim>\<open>UNIT_MULTIPLIERS\<close>: month and year are not keys of the table.\<close>

fun UNIT_MULTIPLIERS :: "TimeUnit \<Rightarrow> int option" where
  "UNIT_MULTIPLIERS Millisecond = Some 1"
| "UNIT_MULTIPLIERS Second = Some MS_PER_SECOND"
| "UNIT_MULTIPLIERS Minute = Some MS_PER_MINUTE"
| "UNIT_MULTIPLIERS Hour = Some MS_PER_HOUR"
| "UNIT_MULTIPLIERS Day = Some MS_PER_DAY"
| "UNIT_MULTIPLIERS Week = Some MS_PER_WEEK"
| "UNIT_MULTIPLIERS Month = None"
| "UNIT_MULTIPLIERS Year = None"

definition DAYS_IN_MONTH :: "int list" where
  "DAYS_IN_MONTH = [31, 28, 31, 30, 31, 30, 31, 31, 30, 31, 30, 31]"

abbreviation MAX_TIME :: int where "MAX_TIME \<equiv> 8640000000000000"

subsection \<open>The platform's Date object (ECMA-262, Date objects)\<close>

text \<open>
  The library computes on \<^verbatim>\<open>Date\<close> objects of the host. Their abstract operations are
  those of ECMA-262: \<open>DayNum\<close> is \<^verbatim>\<open>Day(t)\<close>, and \<open>DayFromYear\<close>, \<open>MakeDay\<close>, \<open>MakeTime\<close>,
  \<open>MakeDate\<close> and \<open>TimeClip\<close> are the operations of the same names. The year of a day is
  computed from an estimate that is corrected by at most one year (lemma \<open>YearFromDay_bounds\<close>
  below shows that the result is the year ECMA-262 specifies).
  A Date object is its time value: \<open>Some t\<close>, or \<open>None\<close> for an invalid Date (NaN).
\<close>

definition DayNum :: "int \<Rightarrow> int" where
  "DayNum t = t div MS_PER_DAY"

definition TimeWithinDay :: "int \<Rightarrow> int" where
  "TimeWithinDay t = t mod MS_PER_DAY"

definition DaysInYear :: "int \<Rightarrow> int" where
  "DaysInYear y =
     (if y mod 4 \<noteq> 0 then 365 else if y mod 100 \<noteq> 0 then 366
      else if y mod 400 \<noteq> 0 then 365 else 366)"

definition DayFromYear :: "int \<Rightarrow> int" where
  "DayFromYear y =
     365 * (y - 1970) + (y - 1969) div 4 - (y - 1901) div 100 + (y - 1601) div 400"

definition YearFromDay :: "int \<Rightarrow> int" where
  "YearFromDay d =
     (let y0 = 1970 + (d * 400) div 146097
      in if DayFromYear (y0 + 1) \<le> d then y0 + 1
         else if DayFromYear y0 \<le> d then y0 else y0 - 1)"

definition YearFromTime :: "int \<Rightarrow> int" where
  "YearFromTime t = YearFromDay (DayNum t)"

definition InLeapYear :: "int \<Rightarrow> int" where
  "InLeapYear t = (if DaysInYear (YearFromTime t) = 366 then 1 else 0)"

definition DayWithinYear :: "int \<Rightarrow> int" where
  "DayWithinYear t = DayNum t - DayFromYear (YearFromTime t)"

text \<open>The day number within the year at which month \<open>m\<close> (0 to 11) starts.\<close>

definition monthStart :: "int \<Rightarrow> int \<Rightarrow> int" where
  "monthStart m leap =
     (if m = 0 then 0 else if m = 1 then 31 else if m = 2 then 59 + leap
      else if m = 3 then 90 + leap else if m = 4 then 120 + leap
      else if m = 5 then 151 + leap else if m = 6 then 181 + leap
      else if m = 7 then 212 + leap else if m = 8 then 243 + leap
      else if m = 9 then 273 + leap else if m = 10 then 304 + leap
      else 334 + leap)"

definition MonthFromTime :: "int \<Rightarrow> int" where
  "MonthFromTime t =
     (let d = DayWithinYear t; l = InLeapYear t
      in if d < 31 then 0 else if d < 59 + l then 1 else if d < 90 + l then 2
         else if d < 120 + l then 3 else if d < 151 + l then 4
         else if d < 181 + l then 5 else if d < 212 + l then 6
         else if d < 243 + l then 7 else if d < 273 + l then 8
         else if d < 304 + l then 9 else if d < 334 + l then 10 else 11)"

definition DateFromTime :: "int \<Rightarrow> int" where
  "DateFromTime t = DayWithinYear t - monthStart (MonthFromTime t) (InLeapYear t) + 1"

definition WeekDay :: "int \<Rightarrow> int" where
  "WeekDay t = (DayNum t + 4) mod 7"

definition HourFromTime :: "int \<Rightarrow> int" where
  "HourFromTime t = (t div MS_PER_HOUR) mod 24"

definition MinFromTime :: "int \<Rightarrow> int" where
  "MinFromTime t = (t div MS_PER_MINUTE) mod 60"

definition SecFromTime :: "int \<Rightarrow> int" where
  "SecFromTime t = (t div MS_PER_SECOND) mod 60"

definition msFromTime :: "int \<Rightarrow> int" where
  "msFromTime t = t mod MS_PER_SECOND"

definition MakeTime :: "int \<Rightarrow> int \<Rightarrow> int \<Rightarrow> int \<Rightarrow> int" where
  "MakeTime h m s ms = h * MS_PER_HOUR + m * MS_PER_MINUTE + s * MS_PER_SECOND + ms"

text \<open>
  \<^verbatim>\<open>MakeDay\<close> of ECMA-262 answers NaN when no time value has the requested year; every
  such day lies outside the range that \<open>TimeClip\<close> accepts for the day-of-month arguments
  this library passes, so the day number is computed for every year and the range is
  checked by \<open>TimeClip\<close>.
\<close>

definition MakeDay :: "int \<Rightarrow> int \<Rightarrow> int \<Rightarrow> int" where
  "MakeDay year month date =
     (let ym = year + month div 12; mn = month mod 12
      in DayFromYear ym + monthStart mn (if DaysInYear ym = 366 then 1 else 0) + date - 1)"

definition MakeDate :: "int \<Rightarrow> int \<Rightarrow> int" where
  "MakeDate day time = day * MS_PER_DAY + time"

definition TimeClip :: "int \<Rightarrow> int option" where
  "TimeClip t = (if \<bar>t\<bar> > MAX_TIME then None else Some t)"

text \<open>\<^verbatim>\<open>new Date(value)\<close> for a Number that may be NaN.\<close>

definition Date_of_number :: "int option \<Rightarrow> int option" where
  "Date_of_number v = (case v of None \<Rightarrow> None | Some t \<Rightarrow> TimeClip t)"

text \<open>Years 0 to 99 mean 1900 to 1999 in \<^verbatim>\<open>Date.UTC\<close> and in the Date constructor.\<close>

definition fullYear :: "int \<Rightarrow> int" where
  "fullYear y = (if 0 \<le> y \<and> y \<le> 99 then 1900 + y else y)"

definition Date_UTC :: "int \<Rightarrow> int \<Rightarrow> int \<Rightarrow> int \<Rightarrow> int \<Rightarrow> int \<Rightarrow> int \<Rightarrow> int option" where
  "Date_UTC y m d h mi s ms = TimeClip (MakeDate (MakeDay (fullYear y) m d) (MakeTime h mi s ms))"

text \<open>
  \<^verbatim>\<open>new Date(year, month, date)\<close> builds a local time of the host and converts it to UTC;
  \<open>tza\<close> is the host's \<^verbatim>\<open>LocalTZA(t, false)\<close>, the offset of the host zone at local time \<open>t\<close>.
\<close>

definition Date_local :: "(int \<Rightarrow> int) \<Rightarrow> int \<Rightarrow> int \<Rightarrow> int \<Rightarrow> int option" where
  "Date_local tza y m d =
     (let t = MakeDate (MakeDay (fullYear y) m d) (MakeTime 0 0 0 0) in TimeClip (t - tza t))"

definition getUTCFullYear :: "int option \<Rightarrow> int option" where
  "getUTCFullYear d = map_option YearFromTime d"

definition getUTCMonth :: "int option \<Rightarrow> int option" where
  "getUTCMonth d = map_option MonthFromTime d"

definition getUTCDate :: "int option \<Rightarrow> int option" where
  "getUTCDate d = map_option DateFromTime d"

definition getUTCDay :: "int option \<Rightarrow> int option" where
  "getUTCDay d = map_option WeekDay d"

definition getUTCHours :: "int option \<Rightarrow> int option" where
  "getUTCHours d = map_option HourFromTime d"

definition getUTCMinutes :: "int option \<Rightarrow> int option" where
  "getUTCMinutes d = map_option MinFromTime d"

definition getUTCSeconds :: "int option \<Rightarrow> int option" where
  "getUTCSeconds d = map_option SecFromTime d"

definition getUTCMilliseconds :: "int option \<Rightarrow> int option" where
  "getUTCMilliseconds d = map_option msFromTime d"

text \<open>
  The setters, each with the arguments the library passes. An argument that is NaN makes
  the Date invalid; \<^verbatim>\<open>setUTCFullYear\<close> alone works on an invalid Date (from time value 0).
\<close>

definition setUTCFullYear1 :: "int option \<Rightarrow> int option \<Rightarrow> int option" where
  "setUTCFullYear1 d year =
     (let t = (case d of None \<Rightarrow> 0 | Some t \<Rightarrow> t)
      in case year of None \<Rightarrow> None
         | Some y \<Rightarrow> TimeClip (MakeDate (MakeDay y (MonthFromTime t) (DateFromTime t)) (TimeWithinDay t)))"

definition setUTCFullYear3 :: "int option \<Rightarrow> int option \<Rightarrow> int option \<Rightarrow> int \<Rightarrow> int option" where
  "setUTCFullYear3 d year month date =
     (let t = (case d of None \<Rightarrow> 0 | Some t \<Rightarrow> t)
      in case year of None \<Rightarrow> None
         | Some y \<Rightarrow> (case month of None \<Rightarrow> None
            | Some m \<Rightarrow> TimeClip (MakeDate (MakeDay y m date) (TimeWithinDay t))))"


definition setUTCMonth2 :: "int option \<Rightarrow> int \<Rightarrow> int \<Rightarrow> int option" where
  "setUTCMonth2 d month date =
     (case d of None \<Rightarrow> None
      | Some t \<Rightarrow> TimeClip (MakeDate (MakeDay (YearFromTime t) month date) (TimeWithinDay t)))"

definition setUTCDate :: "int option \<Rightarrow> int option \<Rightarrow> int option" where
  "setUTCDate d date =
     (case d of None \<Rightarrow> None
      | Some t \<Rightarrow> (case date of None \<Rightarrow> None
         | Some dt \<Rightarrow> TimeClip (MakeDate (MakeDay (YearFromTime t) (MonthFromTime t) dt) (TimeWithinDay t))))"

definition setUTCHours4 :: "int option \<Rightarrow> int \<Rightarrow> int \<Rightarrow> int \<Rightarrow> int \<Rightarrow> int option" where
  "setUTCHours4 d h m s ms =
     (case d of None \<Rightarrow> None
      | Some t \<Rightarrow> TimeClip (MakeDate (DayNum t) (MakeTime h m s ms)))"

definition setUTCHours1 :: "int option \<Rightarrow> int option \<Rightarrow> int option" where
  "setUTCHours1 d hour =
     (case d of None \<Rightarrow> None
      | Some t \<Rightarrow> (case hour of None \<Rightarrow> None
         | Some h \<Rightarrow> TimeClip (MakeDate (DayNum t)
             (MakeTime h (MinFromTime t) (SecFromTime t) (msFromTime t)))))"

definition setUTCMinutes3 :: "int option \<Rightarrow> int \<Rightarrow> int \<Rightarrow> int \<Rightarrow> int option" where
  "setUTCMinutes3 d m s ms =
     (case d of None \<Rightarrow> None
      | Some t \<Rightarrow> TimeClip (MakeDate (DayNum t) (MakeTime (HourFromTime t) m s ms)))"

definition setUTCMinutes1 :: "int option \<Rightarrow> int option \<Rightarrow> int option" where
  "setUTCMinutes1 d minute =
     (case d of None \<Rightarrow> None
      | Some t \<Rightarrow> (case minute of None \<Rightarrow> None
         | Some m \<Rightarrow> TimeClip (MakeDate (DayNum t)
             (MakeTime (HourFromTime t) m (SecFromTime t) (msFromTime t)))))"

definition setUTCSeconds2 :: "int option \<Rightarrow> int \<Rightarrow> int \<Rightarrow> int option" where
  "setUTCSeconds2 d s ms =
     (case d of None \<Rightarrow> None
      | Some t \<Rightarrow> TimeClip (MakeDate (DayNum t) (MakeTime (HourFromTime t) (MinFromTime t) s ms)))"

definition setUTCSeconds1 :: "int option \<Rightarrow> int option \<Rightarrow> int option" where
  "setUTCSeconds1 d second =
     (case d of None \<Rightarrow> None
      | Some t \<Rightarrow> (case second of None \<Rightarrow> None
         | Some s \<Rightarrow> TimeClip (MakeDate (DayNum t)
             (MakeTime (HourFromTime t) (MinFromTime t) s (msFromTime t)))))"

definition setUTCMilliseconds :: "int option \<Rightarrow> int option \<Rightarrow> int option" where
  "setUTCMilliseconds d ms =
     (case d of None \<Rightarrow> None
      | Some t \<Rightarrow> (case ms of None \<Rightarrow> None
         | Some v \<Rightarrow> TimeClip (MakeDate (DayNum t)
             (MakeTime (HourFromTime t) (MinFromTime t) (SecFromTime t) v))))"

subsection \<open>The environment: clock, host zone and the two oracles\<close>

text \<open>
  What the code reads from its platform: \<^verbatim>\<open>Date.now()\<close>; whether \<^verbatim>\<open>Intl.DateTimeFormat\<close>
  accepts a zone name; the civil fields (year, month 1 to 12, day, hour, minute, second) that
  \<^verbatim>\<open>formatToParts\<close> reports for a timestamp in a zone, or \<open>None\<close> when it throws; the
  offset of the host's own zone at a local time (\<^verbatim>\<open>LocalTZA\<close>); the name of the host's zone;
  and what \<^verbatim>\<open>Date.parse\<close> answers for a string outside the ISO format, which ECMA-262
  leaves to the implementation.
\<close>

record env =
  now_ms :: int
  zoneOracle :: "string \<Rightarrow> bool"
  civilOracle :: "string \<Rightarrow> int \<Rightarrow> (int \<times> int \<times> int \<times> int \<times> int \<times> int) option"
  hostTZA :: "int \<Rightarrow> int"
  systemZone :: string
  parseFallback :: "string \<Rightarrow> int option"

subsection \<open>LRUCache\<close>

text \<open>
  The private \<^verbatim>\<open>Map\<close> keeps insertion order, so it is a list of pairs with distinct
  keys, oldest first.
\<close>

record ('k, 'v) LRUCache =
  cache :: "('k \<times> 'v) list"
  maxSize :: nat

definition lru_delete :: "'k \<Rightarrow> ('k \<times> 'v) list \<Rightarrow> ('k \<times> 'v) list" where
  "lru_delete k es = filter (\<lambda>p. fst p \<noteq> k) es"

definition lru_get :: "('k, 'v) LRUCache \<Rightarrow> 'k \<Rightarrow> 'v option \<times> ('k, 'v) LRUCache" where
  "lru_get c k =
     (case map_of (cache c) k of
        None \<Rightarrow> (None, c)
      | Some v \<Rightarrow> (Some v, c\<lparr>cache := lru_delete k (cache c) @ [(k, v)]\<rparr>))"

definition lru_set :: "('k, 'v) LRUCache \<Rightarrow> 'k \<Rightarrow> 'v \<Rightarrow> ('k, 'v) LRUCache" where
  "lru_set c k v =
     (let es = cache c;
          es' = (if map_of es k \<noteq> None then lru_delete k es
                 else if length es \<ge> maxSize c then (case es of [] \<Rightarrow> [] | _ # r \<Rightarrow> r)
                 else es)
      in c\<lparr>cache := es' @ [(k, v)]\<rparr>)"

text \<open>
  The inner \<^verbatim>\<open>Map<number, number>\<close> of a zone is stored in the cache by reference, so
  writing to it changes the cached value in place and keeps its position.
\<close>

type_synonym zoneCache = "int option \<Rightarrow> int option option"

type_synonym offsetCache = "(string, zoneCache) LRUCache"

definition lru_write :: "offsetCache \<Rightarrow> string \<Rightarrow> zoneCache \<Rightarrow> offsetCache" where
  "lru_write c k v = c\<lparr>cache := map (\<lambda>p. if fst p = k then (k, v) else p) (cache c)\<rparr>"

subsection \<open>zone: validity and offsets\<close>

text \<open>\<^verbatim>\<open>zone.isValid\<close> with the set \<^verbatim>\<open>_validZoneCache\<close> passed and returned.\<close>

definition isValid :: "env \<Rightarrow> string set \<Rightarrow> string \<Rightarrow> bool \<times> string set" where
  "isValid E V zoneName =
     (if zoneName \<in> V then (True, V)
      else if zoneOracle E zoneName then (True, insert zoneName V)
      else (False, V))"

text \<open>
  The body of the \<^verbatim>\<open>try\<close> block of \<^verbatim>\<open>zone.getOffset\<close>: \<open>None\<close> when formatting throws
  (an invalid Date or a zone the formatter rejects), otherwise the offset, which is NaN when
  \<^verbatim>\<open>Date.UTC\<close> is.
\<close>

definition computeOffset :: "env \<Rightarrow> int option \<Rightarrow> string \<Rightarrow> int option option" where
  "computeOffset E timestamp zoneName =
     (case Date_of_number timestamp of
        None \<Rightarrow> None
      | Some t \<Rightarrow>
          (case civilOracle E zoneName t of
             None \<Rightarrow> None
           | Some (y, mo, d, h, mi, s) \<Rightarrow>
               Some (nsub (Some t) (Date_UTC y (mo - 1) d h mi s (msFromTime t)))))"

text \<open>\<^verbatim>\<open>zone.getOffset\<close> with the cache \<^verbatim>\<open>_offsetCache\<close> passed and returned.\<close>

definition getOffset :: "env \<Rightarrow> offsetCache \<Rightarrow> int option \<Rightarrow> string \<Rightarrow> int option \<times> offsetCache" where
  "getOffset E C timestamp zoneName =
     (if zoneName = ''UTC'' then (Some 0, C)
      else
        (case lru_get C zoneName of
           (zc, C1) \<Rightarrow>
             (case (case zc of None \<Rightarrow> None | Some m \<Rightarrow> m timestamp) of
                Some v \<Rightarrow> (v, C1)
              | None \<Rightarrow>
                  (case computeOffset E timestamp zoneName of
                     None \<Rightarrow> (Some 0, C1)
                   | Some offset \<Rightarrow>
                       (case zc of
                          None \<Rightarrow>
                            (offset,
                             lru_write (lru_set C1 zoneName Map.empty) zoneName
                               (Map.empty(timestamp \<mapsto> offset)))
                        | Some m \<Rightarrow>
                            (offset, lru_write C1 zoneName (m(timestamp \<mapsto> offset))))))))"

text \<open>
  Both caches only memoise: \<open>isValid_val\<close> and \<open>offsetOf\<close> are the values the two functions
  return whenever the caches hold nothing but earlier results (lemmas \<open>isValid_transparent\<close>
  and \<open>getOffset_transparent\<close>). The operations below are written with these values.
\<close>

definition isValid_val :: "env \<Rightarrow> string \<Rightarrow> bool" where
  "isValid_val E zoneName = zoneOracle E zoneName"

definition offsetOf :: "env \<Rightarrow> int option \<Rightarrow> string \<Rightarrow> int option" where
  "offsetOf E timestamp zoneName =
     (if zoneName = ''UTC'' then Some 0
      else (case computeOffset E timestamp zoneName of None \<Rightarrow> Some 0 | Some offset \<Rightarrow> offset))"

definition convertToZone :: "env \<Rightarrow> int option \<Rightarrow> string \<Rightarrow> string \<Rightarrow> int option" where
  "convertToZone E timestamp fromZone toZone =
     (if fromZone = toZone then timestamp
      else nadd timestamp (nsub (offsetOf E timestamp fromZone) (offsetOf E timestamp toZone)))"

datatype DSTPreference = Earlier | Later

text \<open>\<^verbatim>\<open>!==\<close> on Numbers: NaN differs from everything, itself included.\<close>

definition num_neq :: "int option \<Rightarrow> int option \<Rightarrow> bool" where
  "num_neq a b = (a = None \<or> b = None \<or> a \<noteq> b)"

definition handleDSTAmbiguity :: "env \<Rightarrow> int option \<Rightarrow> string \<Rightarrow> DSTPreference \<Rightarrow> int option" where
  "handleDSTAmbiguity E timestamp zoneName preference =
     (if zoneName = ''UTC'' then timestamp
      else
        (let tBefore = nsub timestamp (Some MS_PER_HOUR);
             tAfter = nadd timestamp (Some MS_PER_HOUR);
             offsetBefore = offsetOf E tBefore zoneName;
             offsetAfter = offsetOf E tAfter zoneName
         in if num_neq offsetBefore offsetAfter
            then (if preference = Later then timestamp else nsub timestamp (Some MS_PER_HOUR))
            else timestamp))"

text \<open>
  \<^verbatim>\<open>zone.addTimeWithDST\<close>. The amount is an integer and the arithmetic is exact; a result
  beyond the range of timestamps is rejected by the constructor afterwards, as it is in the
  source, where such a result can also be Infinity or NaN.
\<close>

definition addTimeWithDST :: "env \<Rightarrow> int \<Rightarrow> int \<Rightarrow> TimeUnit \<Rightarrow> string \<Rightarrow> int option" where
  "addTimeWithDST E timestamp amount unit zoneName =
     (if UNIT_MULTIPLIERS unit \<noteq> None \<and> unit \<noteq> Day \<and> unit \<noteq> Week
      then Some (timestamp + amount * the (UNIT_MULTIPLIERS unit))
      else
        (let zonedTime = nsub (Some timestamp) (offsetOf E (Some timestamp) zoneName);
             zonedDate = Date_of_number zonedTime;
             zonedDate' =
               (case unit of
                  Year \<Rightarrow> setUTCFullYear1 zonedDate (nadd (getUTCFullYear zonedDate) (Some amount))
                | Month \<Rightarrow>
                    (let targetMonth = nadd (getUTCMonth zonedDate) (Some amount);
                         targetYear = nadd (getUTCFullYear zonedDate)
                                        (map_option (\<lambda>m. m div 12) targetMonth);
                         finalMonth = map_option (\<lambda>m. js_rem (js_rem m 12 + 12) 12) targetMonth;
                         originalDay = getUTCDate zonedDate;
                         d1 = setUTCFullYear3 zonedDate targetYear finalMonth 1;
                         lastDayOfTargetMonth =
                           (case targetYear of None \<Rightarrow> None
                            | Some ty \<Rightarrow> (case finalMonth of None \<Rightarrow> None
                               | Some fm \<Rightarrow> getUTCDate (Date_local (hostTZA E) ty (fm + 1) 0)));
                         finalDay =
                           (case originalDay of None \<Rightarrow> None
                            | Some od \<Rightarrow> (case lastDayOfTargetMonth of None \<Rightarrow> None
                               | Some ld \<Rightarrow> Some (min od ld)))
                     in setUTCDate d1 finalDay)
                | Week \<Rightarrow> setUTCDate zonedDate (nadd (getUTCDate zonedDate) (Some (amount * 7)))
                | Day \<Rightarrow> setUTCDate zonedDate (nadd (getUTCDate zonedDate) (Some amount))
                | Hour \<Rightarrow> setUTCHours1 zonedDate (nadd (getUTCHours zonedDate) (Some amount))
                | Minute \<Rightarrow> setUTCMinutes1 zonedDate (nadd (getUTCMinutes zonedDate) (Some amount))
                | Second \<Rightarrow> setUTCSeconds1 zonedDate (nadd (getUTCSeconds zonedDate) (Some amount))
                | Millisecond \<Rightarrow>
                    setUTCMilliseconds zonedDate (nadd (getUTCMilliseconds zonedDate) (Some amount)));
             result = nadd zonedDate' (offsetOf E zonedDate' zoneName)
         in handleDSTAmbiguity E result zoneName Later))"

subsection \<open>Validation and the constructor\<close>

definition validateTimestamp :: "number \<Rightarrow> unit result" where
  "validateTimestamp timestamp =
     (case timestamp of
        Num t \<Rightarrow> if \<bar>t\<bar> > MAX_TIME then Inl (KronoError BadTimestamp) else Inr ()
      | _ \<Rightarrow> Inl (KronoError BadTimestamp))"

definition validateDateComponents :: "int \<Rightarrow> int \<Rightarrow> int \<Rightarrow> unit result" where
  "validateDateComponents year month day =
     (if month < 1 \<or> month > 12 \<or> day < 1 \<or> day > 31
      then Inl (KronoParseError InvalidDateComponents)
      else
        (let isLeap = (js_rem year 4 = 0 \<and> js_rem year 100 \<noteq> 0) \<or> js_rem year 400 = 0;
             daysInMonthForInput =
               (if month = 2 \<and> isLeap then 29 else DAYS_IN_MONTH ! nat (month - 1))
         in if day > daysInMonthForInput then Inl (KronoParseError InvalidDayForMonth)
            else Inr ()))"

text \<open>
  An instance: the three immutable fields and the debug flag. The per-instance map of
  memoised getter results is left out; it only stores values the getters recompute.
\<close>

record Krono =
  k_time :: int
  k_locale :: string
  k_zone :: string
  k_debug :: bool

definition Krono_new :: "env \<Rightarrow> number \<Rightarrow> string \<Rightarrow> string \<Rightarrow> bool \<Rightarrow> Krono result" where
  "Krono_new E time locale zoneName debug =
     (case validateTimestamp time of
        Inl e \<Rightarrow> Inl e
      | Inr _ \<Rightarrow>
          if zoneName \<noteq> ''UTC'' \<and> \<not> isValid_val E zoneName
          then Inl (KronoTimezoneError zoneName)
          else (case time of
                  Num t \<Rightarrow> Inr \<lparr>k_time = t, k_locale = locale, k_zone = zoneName, k_debug = debug\<rparr>
                | _ \<Rightarrow> Inl (KronoError BadTimestamp)))"

subsection \<open>Strings\<close>

text \<open>
  Strings are lists of 8-bit characters: the model covers the strings whose code units are
  below 256 (Latin-1). Among these, \<open>isSpace\<close> is the class \<^verbatim>\<open>\s\<close>, which is also what
  \<^verbatim>\<open>trim\<close> removes: the space, the five control characters from tab to carriage return, and
  the no-break space U+00A0. \<open>isDigit\<close> is \<^verbatim>\<open>\d\<close>, the ten ASCII digits.
  \<open>toLowerChar\<close> maps the capital letters of Latin-1, \<^verbatim>\<open>A\<close> to \<^verbatim>\<open>Z\<close> and U+00C0 to
  U+00DE without the multiplication sign U+00D7, to their small letters 32 places further on.
\<close>

definition isDigit :: "char \<Rightarrow> bool" where
  "isDigit c = (c \<in> set ''0123456789'')"

definition isSpace :: "char \<Rightarrow> bool" where
  "isSpace c = (c \<in> set [CHR '' '', CHR 0x09, CHR 0x0A, CHR 0x0B, CHR 0x0C, CHR 0x0D, CHR 0xA0])"

definition digitVal :: "char \<Rightarrow> int" where
  "digitVal c =
     (case map_of (zip ''0123456789'' [0, 1, 2, 3, 4, 5, 6, 7, 8, 9]) c of
        None \<Rightarrow> 0 | Some v \<Rightarrow> v)"

text \<open>
  \<^verbatim>\<open>Number.parseInt(s, 10)\<close> on a string of digits, as the integer the digits denote. The
  source rounds it to a double; the amounts this changes lead beyond the range of
  timestamps either way.
\<close>

definition parseInt :: "string \<Rightarrow> int" where
  "parseInt ds = foldl (\<lambda>a c. 10 * a + digitVal c) 0 ds"

definition toLowerChar :: "char \<Rightarrow> char" where
  "toLowerChar c =
     (case map_of (zip
             (''ABCDEFGHIJKLMNOPQRSTUVWXYZ'' @
              [CHR 0xC0, CHR 0xC1, CHR 0xC2, CHR 0xC3, CHR 0xC4, CHR 0xC5, CHR 0xC6, CHR 0xC7,
               CHR 0xC8, CHR 0xC9, CHR 0xCA, CHR 0xCB, CHR 0xCC, CHR 0xCD, CHR 0xCE, CHR 0xCF,
               CHR 0xD0, CHR 0xD1, CHR 0xD2, CHR 0xD3, CHR 0xD4, CHR 0xD5, CHR 0xD6,
               CHR 0xD8, CHR 0xD9, CHR 0xDA, CHR 0xDB, CHR 0xDC, CHR 0xDD, CHR 0xDE])
             (''abcdefghijklmnopqrstuvwxyz'' @
              [CHR 0xE0, CHR 0xE1, CHR 0xE2, CHR 0xE3, CHR 0xE4, CHR 0xE5, CHR 0xE6, CHR 0xE7,
               CHR 0xE8, CHR 0xE9, CHR 0xEA, CHR 0xEB, CHR 0xEC, CHR 0xED, CHR 0xEE, CHR 0xEF,
               CHR 0xF0, CHR 0xF1, CHR 0xF2, CHR 0xF3, CHR 0xF4, CHR 0xF5, CHR 0xF6,
               CHR 0xF8, CHR 0xF9, CHR 0xFA, CHR 0xFB, CHR 0xFC, CHR 0xFD, CHR 0xFE])) c of
        None \<Rightarrow> c | Some l \<Rightarrow> l)"

definition toLowerCase :: "string \<Rightarrow> string" where
  "toLowerCase s = map toLowerChar s"

definition trim :: "string \<Rightarrow> string" where
  "trim s = rev (dropWhile isSpace (rev (dropWhile isSpace s)))"

definition starts_with :: "string \<Rightarrow> string \<Rightarrow> bool" where
  "starts_with p s = (take (length p) s = p)"

fun str_includes :: "string \<Rightarrow> string \<Rightarrow> bool" where
  "str_includes sub [] = (sub = [])"
| "str_includes sub (c # cs) = (starts_with sub (c # cs) \<or> str_includes sub cs)"

text \<open>\<^verbatim>\<open>str.replace(" ", "T")\<close>: the first space only.\<close>

fun replace_space_T :: "string \<Rightarrow> string" where
  "replace_space_T [] = []"
| "replace_space_T (c # cs) = (if c = CHR '' '' then CHR ''T'' # cs else c # replace_space_T cs)"

fun showNat :: "nat \<Rightarrow> string" where
  "showNat n =
     (if n < 10 then [''0123456789'' ! n]
      else showNat (n div 10) @ [''0123456789'' ! (n mod 10)])"

text \<open>\<^verbatim>\<open>String(n)\<close> for a Number that is an integer or NaN, and \<^verbatim>\<open>padStart(n, "0")\<close>.\<close>

definition showNum :: "int option \<Rightarrow> string" where
  "showNum v =
     (case v of None \<Rightarrow> ''NaN''
      | Some n \<Rightarrow> if n < 0 then CHR ''-'' # showNat (nat (- n)) else showNat (nat n))"

definition padStart0 :: "nat \<Rightarrow> string \<Rightarrow> string" where
  "padStart0 n s = replicate (n - length s) CHR ''0'' @ s"

subsection \<open>The patterns\<close>

text \<open>A literal, and \<^verbatim>\<open>\s+\<close> followed by something that starts with no space.\<close>

definition lit :: "string \<Rightarrow> string \<Rightarrow> string option" where
  "lit p s = (if starts_with p s then Some (drop (length p) s) else None)"

definition skipSpaces1 :: "string \<Rightarrow> string option" where
  "skipSpaces1 s =
     (case s of [] \<Rightarrow> None
      | c # cs \<Rightarrow> if isSpace c then Some (dropWhile isSpace cs) else None)"

text \<open>\<open>n\<close> digits, read as a number, and the rest.\<close>

definition digitsN :: "nat \<Rightarrow> string \<Rightarrow> (int \<times> string) option" where
  "digitsN n s =
     (if n \<le> length s \<and> list_all isDigit (take n s)
      then Some (parseInt (take n s), drop n s) else None)"

definition WEEKDAY_MAP :: "string \<Rightarrow> int option" where
  "WEEKDAY_MAP =
     map_of [(''sunday'', 0), (''monday'', 1), (''tuesday'', 2), (''wednesday'', 3),
             (''thursday'', 4), (''friday'', 5), (''saturday'', 6)]"

text \<open>
  \<^verbatim>\<open>NATURAL_PATTERNS\<close>. All four are anchored at both ends and case-insensitive; each
  matcher returns what the handler reads from the match: the number of the weekday, or the unit.
\<close>

definition match_weekday :: "string \<Rightarrow> string \<Rightarrow> int option" where
  "match_weekday keyword str =
     (case lit keyword (toLowerCase str) of
        None \<Rightarrow> None
      | Some r \<Rightarrow> (case skipSpaces1 r of None \<Rightarrow> None | Some w \<Rightarrow> WEEKDAY_MAP w))"

definition match_of_unit :: "string \<Rightarrow> TimeUnit option" where
  "match_of_unit r =
     (case skipSpaces1 r of
        None \<Rightarrow> None
      | Some r1 \<Rightarrow>
          (case lit ''of'' r1 of
             None \<Rightarrow> None
           | Some r2 \<Rightarrow>
               (case skipSpaces1 r2 of
                  None \<Rightarrow> None
                | Some u \<Rightarrow>
                    if u = ''month'' then Some Month
                    else if u = ''year'' then Some Year
                    else if u = ''week'' then Some Week else None)))"

definition match_startOf :: "string \<Rightarrow> TimeUnit option" where
  "match_startOf str =
     (let l = toLowerCase str
      in case lit ''beginning'' l of
           Some r \<Rightarrow> match_of_unit r
         | None \<Rightarrow> (case lit ''start'' l of Some r \<Rightarrow> match_of_unit r | None \<Rightarrow> None))"

definition match_endOf :: "string \<Rightarrow> TimeUnit option" where
  "match_endOf str =
     (case lit ''end'' (toLowerCase str) of Some r \<Rightarrow> match_of_unit r | None \<Rightarrow> None)"

text \<open>
  \<^verbatim>\<open>RELATIVE_REGEX\<close> is not anchored. Its optional groups (the leading \<^verbatim>\<open>in\<close>, the plural
  \<^verbatim>\<open>s\<close>, the trailing \<^verbatim>\<open>ago|from now|in\<close>) decide neither whether it matches nor what it
  captures: the match is at the leftmost place where a run of digits, white space and a
  unit word follow each other, and the captures are the digits and the unit.
\<close>

definition unit_word :: "string \<Rightarrow> TimeUnit option" where
  "unit_word s =
     (if starts_with ''year'' s then Some Year
      else if starts_with ''month'' s then Some Month
      else if starts_with ''week'' s then Some Week
      else if starts_with ''day'' s then Some Day
      else if starts_with ''hour'' s then Some Hour
      else if starts_with ''minute'' s then Some Minute
      else if starts_with ''second'' s then Some Second else None)"

definition relative_at :: "string \<Rightarrow> (string \<times> TimeUnit) option" where
  "relative_at s =
     (let ds = takeWhile isDigit s
      in if ds = [] then None
         else (case skipSpaces1 (dropWhile isDigit s) of
                 None \<Rightarrow> None
               | Some u \<Rightarrow> (case unit_word u of None \<Rightarrow> None | Some un \<Rightarrow> Some (ds, un))))"

fun RELATIVE_REGEX :: "string \<Rightarrow> (string \<times> TimeUnit) option" where
  "RELATIVE_REGEX [] = None"
| "RELATIVE_REGEX (c # cs) =
     (case relative_at (c # cs) of Some m \<Rightarrow> Some m | None \<Rightarrow> RELATIVE_REGEX cs)"

text \<open>
  \<^verbatim>\<open>ISO_WITH_ZONE_REGEX\<close>: anchored at the start only. After the date and the optional
  time the string must go on with \<^verbatim>\<open>Z\<close> or an offset, or end. The result is the three
  captures the caller reads.
\<close>

definition iso_date :: "string \<Rightarrow> ((int \<times> int \<times> int) \<times> string) option" where
  "iso_date s =
     (case digitsN 4 s of None \<Rightarrow> None | Some (y, r1) \<Rightarrow>
      (case lit ''-'' r1 of None \<Rightarrow> None | Some r2 \<Rightarrow>
       (case digitsN 2 r2 of None \<Rightarrow> None | Some (m, r3) \<Rightarrow>
        (case lit ''-'' r3 of None \<Rightarrow> None | Some r4 \<Rightarrow>
         (case digitsN 2 r4 of None \<Rightarrow> None | Some (d, r5) \<Rightarrow> Some ((y, m, d), r5))))))"

definition iso_hms :: "string \<Rightarrow> ((int \<times> int \<times> int) \<times> string) option" where
  "iso_hms s =
     (case digitsN 2 s of None \<Rightarrow> None | Some (h, r1) \<Rightarrow>
      (case lit '':'' r1 of None \<Rightarrow> None | Some r2 \<Rightarrow>
       (case digitsN 2 r2 of None \<Rightarrow> None | Some (mi, r3) \<Rightarrow>
        (case lit '':'' r3 of None \<Rightarrow> None | Some r4 \<Rightarrow>
         (case digitsN 2 r4 of None \<Rightarrow> None | Some (sec, r5) \<Rightarrow> Some ((h, mi, sec), r5))))))"

definition iso_time :: "string \<Rightarrow> ((int \<times> int \<times> int) \<times> string) option" where
  "iso_time s = (case lit ''T'' s of None \<Rightarrow> None | Some r \<Rightarrow> iso_hms r)"

definition iso_millis :: "string \<Rightarrow> (int \<times> string) option" where
  "iso_millis s = (case lit ''.'' s of None \<Rightarrow> None | Some r \<Rightarrow> digitsN 3 r)"

definition iso_offset :: "string \<Rightarrow> bool" where
  "iso_offset s =
     (case s of [] \<Rightarrow> False
      | c # r \<Rightarrow>
          (c = CHR ''+'' \<or> c = CHR ''-'') \<and>
          (case digitsN 2 r of None \<Rightarrow> False
           | Some (_, r1) \<Rightarrow>
               digitsN 2 r1 \<noteq> None \<or>
               (case lit '':'' r1 of None \<Rightarrow> False | Some r2 \<Rightarrow> digitsN 2 r2 \<noteq> None)))"

definition iso_tail :: "string \<Rightarrow> bool" where
  "iso_tail s = (starts_with ''Z'' s \<or> iso_offset s \<or> s = [])"

definition ISO_WITH_ZONE_REGEX :: "string \<Rightarrow> (int \<times> int \<times> int) option" where
  "ISO_WITH_ZONE_REGEX s =
     (case iso_date s of
        None \<Rightarrow> None
      | Some (ymd, r) \<Rightarrow>
          if (case iso_time r of
                None \<Rightarrow> False
              | Some (_, r1) \<Rightarrow>
                  (case iso_millis r1 of None \<Rightarrow> False | Some (_, r2) \<Rightarrow> iso_tail r2) \<or> iso_tail r1)
             \<or> iso_tail r
          then Some ymd else None)"

text \<open>The test \<^verbatim>\<open>/^\d{4}-\d{2}-\d{2}[ T]\d{2}:\d{2}:\d{2}/\<close> of the UTC stage.\<close>

definition utc_datetime_shape :: "string \<Rightarrow> bool" where
  "utc_datetime_shape s =
     (case iso_date s of
        None \<Rightarrow> False
      | Some (_, r) \<Rightarrow>
          (case r of [] \<Rightarrow> False
           | c # r1 \<Rightarrow> (c = CHR '' '' \<or> c = CHR ''T'') \<and> iso_hms r1 \<noteq> None))"

subsection \<open>Parsing a date string with the platform\<close>

text \<open>
  \<^verbatim>\<open>new Date(string)\<close>. ECMA-262 fixes the result for its date-time string format: a
  date alone is UTC, a date and time without offset is local time of the host, a trailing
  \<^verbatim>\<open>Z\<close> is UTC. The forms \<^verbatim>\<open>YYYY-MM-DD\<close> and \<^verbatim>\<open>YYYY-MM-DDTHH:mm:ss[.sss][Z]\<close> with fields
  of a real calendar date and time are computed here; every other string, also one in that
  shape with a field out of range, is answered by the implementation (\<open>parseFallback\<close>).
\<close>

definition daysInMonthOf :: "int \<Rightarrow> int \<Rightarrow> int" where
  "daysInMonthOf y m =
     (if m = 2 then (if y mod 4 = 0 \<and> (y mod 100 \<noteq> 0 \<or> y mod 400 = 0) then 29 else 28)
      else if m = 4 \<or> m = 6 \<or> m = 9 \<or> m = 11 then 30
      else 31)"

definition Date_parse :: "env \<Rightarrow> string \<Rightarrow> int option" where
  "Date_parse E s =
     (case iso_date s of
        None \<Rightarrow> parseFallback E s
      | Some ((y, m, d), r) \<Rightarrow>
          if \<not> (1 \<le> m \<and> m \<le> 12 \<and> 1 \<le> d \<and> d \<le> daysInMonthOf y m) then parseFallback E s
          else if r = [] then TimeClip (MakeDate (MakeDay y (m - 1) d) 0)
          else
            (case iso_time r of
               None \<Rightarrow> parseFallback E s
             | Some ((h, mi, sec), r1) \<Rightarrow>
                 (let (ms, r2) = (case iso_millis r1 of None \<Rightarrow> (0, r1) | Some p \<Rightarrow> p);
                      t = MakeDate (MakeDay y (m - 1) d) (MakeTime h mi sec ms)
                  in if \<not> (h \<le> 23 \<and> mi \<le> 59 \<and> sec \<le> 59) then parseFallback E s
                     else if r2 = ''Z'' then TimeClip t
                     else if r2 = [] then TimeClip (t - hostTZA E t)
                     else parseFallback E s)))"

subsection \<open>Krono: getters and arithmetic\<close>

text \<open>\<^verbatim>\<open>_getZoneTime\<close>: the civil time of the instance, as a Date read with the UTC getters.\<close>

definition getZoneTime :: "env \<Rightarrow> Krono \<Rightarrow> int option" where
  "getZoneTime E k =
     (if k_zone k = ''UTC'' then Date_of_number (Some (k_time k))
      else Date_of_number (nsub (Some (k_time k)) (offsetOf E (Some (k_time k)) (k_zone k))))"

definition year :: "env \<Rightarrow> Krono \<Rightarrow> int option" where
  "year E k = getUTCFullYear (getZoneTime E k)"

definition month :: "env \<Rightarrow> Krono \<Rightarrow> int option" where
  "month E k = nadd (getUTCMonth (getZoneTime E k)) (Some 1)"

definition day :: "env \<Rightarrow> Krono \<Rightarrow> int option" where
  "day E k = getUTCDate (getZoneTime E k)"

definition hour :: "env \<Rightarrow> Krono \<Rightarrow> int option" where
  "hour E k = getUTCHours (getZoneTime E k)"

definition dayOfWeek :: "env \<Rightarrow> Krono \<Rightarrow> int option" where
  "dayOfWeek E k = getUTCDay (getZoneTime E k)"

definition valueOf :: "Krono \<Rightarrow> int" where
  "valueOf k = k_time k"

text \<open>
  \<^verbatim>\<open>toISOString\<close>, as far as \<open>add\<close> depends on it: \<open>add\<close> builds its debug message before
  it looks at the debug flag, and \<^verbatim>\<open>Date.prototype.toISOString\<close> throws a RangeError on an
  invalid Date. The string itself is not modelled.
\<close>

definition toISOString :: "env \<Rightarrow> Krono \<Rightarrow> unit result" where
  "toISOString E k = (if getZoneTime E k = None then Inl RangeError else Inr ())"

definition add :: "env \<Rightarrow> Krono \<Rightarrow> int \<Rightarrow> TimeUnit \<Rightarrow> Krono result" where
  "add E k amount unit =
     bind (toISOString E k) (\<lambda>_.
       let newTime = addTimeWithDST E (k_time k) amount unit (k_zone k)
       in Krono_new E (toNumber newTime) (k_locale k) (k_zone k) (k_debug k))"

definition subtract :: "env \<Rightarrow> Krono \<Rightarrow> int \<Rightarrow> TimeUnit \<Rightarrow> Krono result" where
  "subtract E k amount unit = add E k (- amount) unit"

text \<open>The \<^verbatim>\<open>switch\<close> of \<open>startOf\<close>; the source has the same one in both of its branches.\<close>

definition startOf_switch :: "TimeUnit \<Rightarrow> int option \<Rightarrow> int option" where
  "startOf_switch unit date =
     (case unit of
        Year \<Rightarrow> setUTCHours4 (setUTCMonth2 date 0 1) 0 0 0 0
      | Month \<Rightarrow> setUTCHours4 (setUTCDate date (Some 1)) 0 0 0 0
      | Week \<Rightarrow>
          (let dayOfWeek = getUTCDay date;
               daysToSubtract = map_option (\<lambda>w. if w = 0 then 6 else w - 1) dayOfWeek
           in setUTCHours4 (setUTCDate date (nsub (getUTCDate date) daysToSubtract)) 0 0 0 0)
      | Day \<Rightarrow> setUTCHours4 date 0 0 0 0
      | Hour \<Rightarrow> setUTCMinutes3 date 0 0 0
      | Minute \<Rightarrow> setUTCSeconds2 date 0 0
      | Second \<Rightarrow> setUTCMilliseconds date (Some 0)
      | Millisecond \<Rightarrow> date)"

text \<open>The string \<^verbatim>\<open>YYYY-MM-DDTHH:MM:SS.mmm\<close> that \<open>startOf\<close> formats from the UTC fields of a Date.\<close>

definition dateString_of :: "int option \<Rightarrow> string" where
  "dateString_of modifiedDate =
     showNum (getUTCFullYear modifiedDate) @ ''-'' @
     padStart0 2 (showNum (nadd (getUTCMonth modifiedDate) (Some 1))) @ ''-'' @
     padStart0 2 (showNum (getUTCDate modifiedDate)) @ ''T'' @
     padStart0 2 (showNum (getUTCHours modifiedDate)) @ '':'' @
     padStart0 2 (showNum (getUTCMinutes modifiedDate)) @ '':'' @
     padStart0 2 (showNum (getUTCSeconds modifiedDate)) @ ''.'' @
     padStart0 3 (showNum (getUTCMilliseconds modifiedDate))"

subsection \<open>The parsing pipeline\<close>

text \<open>
  The string stages of \<^verbatim>\<open>_parseToTime\<close>, with the natural-language stage as a parameter
  \<open>nl\<close>: \<^verbatim>\<open>_parseNaturalLanguage\<close> calls \<open>startOf\<close>, and \<open>startOf\<close> parses the string it
  has formatted with \<^verbatim>\<open>Krono.create\<close>. That string matches none of the natural-language
  patterns, so the inner call runs the stage as \<open>noPattern\<close> (lemma
  \<open>parseNaturalLanguage_noPattern\<close>): the stage builds its reference instance, which can
  throw, and returns null.
\<close>

definition parseString ::
  "env \<Rightarrow> (string \<Rightarrow> string \<Rightarrow> int option result) \<Rightarrow> string \<Rightarrow> string \<Rightarrow> number result" where
  "parseString E nl input defaultZone =
     (let str = trim input; now = now_ms E
      in if toLowerCase str = ''now'' then Inr (Num now)
         else
           bind (nl str defaultZone) (\<lambda>naturalResult.
             case naturalResult of
               Some r \<Rightarrow> Inr (Num r)
             | None \<Rightarrow>
                 (case RELATIVE_REGEX (toLowerCase str) of
                    Some (digits, unit) \<Rightarrow>
                      (let amount = parseInt digits;
                           isAgo = str_includes ''ago'' str;
                           finalAmount = (if isAgo then - amount else amount)
                       in Inr (toNumber (addTimeWithDST E now finalAmount unit defaultZone)))
                  | None \<Rightarrow>
                      bind (case ISO_WITH_ZONE_REGEX str of
                              Some (y, m, d) \<Rightarrow> validateDateComponents y m d
                            | None \<Rightarrow> Inr ()) (\<lambda>_.
                        case (if defaultZone = ''UTC'' \<and> utc_datetime_shape str
                              then Date_parse E (replace_space_T str @ ''Z'') else None) of
                          Some t \<Rightarrow> Inr (Num t)
                        | None \<Rightarrow>
                            (case Date_parse E str of
                               Some t \<Rightarrow> Inr (Num t)
                             | None \<Rightarrow> Inl (KronoParseError UnrecognizedFormat))))))"

definition noPattern :: "env \<Rightarrow> string \<Rightarrow> string \<Rightarrow> int option result" where
  "noPattern E str defaultZone =
     bind (Krono_new E (Num (now_ms E)) ''en-GB'' defaultZone False) (\<lambda>currentKrono. Inr None)"

definition startOf :: "env \<Rightarrow> Krono \<Rightarrow> TimeUnit \<Rightarrow> Krono result" where
  "startOf E k unit =
     (if k_zone k = ''UTC''
      then
        (let date = startOf_switch unit (Date_of_number (Some (k_time k)))
         in Krono_new E (toNumber date) (k_locale k) (k_zone k) (k_debug k))
      else
        (let zonedDate = getZoneTime E k;
             modifiedDate =
               startOf_switch unit
                 (case zonedDate of
                    None \<Rightarrow> None
                  | Some z \<Rightarrow>
                      Date_of_number
                        (Date_UTC (YearFromTime z) (MonthFromTime z) (DateFromTime z)
                           (HourFromTime z) (MinFromTime z) (SecFromTime z) (msFromTime z)));
             dateString = dateString_of modifiedDate
         in bind (parseString E (noPattern E) dateString (k_zone k)) (\<lambda>time.
              Krono_new E time (k_locale k) (k_zone k) (k_debug k))))"

definition endOf :: "env \<Rightarrow> Krono \<Rightarrow> TimeUnit \<Rightarrow> Krono result" where
  "endOf E k unit =
     bind (add E k 1 unit) (\<lambda>a. bind (startOf E a unit) (\<lambda>s. subtract E s 1 Millisecond))"

text \<open>
  \<^verbatim>\<open>_parseNaturalLanguage\<close>. A weekday that is NaN (the civil time of the reference
  instance is an invalid Date) makes the day count NaN, and \<open>add\<close> then throws where it
  formats its debug message.
\<close>

definition parseNaturalLanguage :: "env \<Rightarrow> string \<Rightarrow> string \<Rightarrow> int option result" where
  "parseNaturalLanguage E str defaultZone =
     bind (Krono_new E (Num (now_ms E)) ''en-GB'' defaultZone False) (\<lambda>currentKrono.
       case match_weekday ''next'' str of
         Some targetDay \<Rightarrow>
           (case dayOfWeek E currentKrono of
              None \<Rightarrow> Inl RangeError
            | Some currentDay \<Rightarrow>
                (let daysToAdd = (if targetDay > currentDay then targetDay - currentDay
                                  else 7 - currentDay + targetDay)
                 in bind (add E currentKrono daysToAdd Day) (\<lambda>a.
                      bind (startOf E a Day) (\<lambda>r. Inr (Some (k_time r))))))
       | None \<Rightarrow>
       (case match_weekday ''last'' str of
         Some targetDay \<Rightarrow>
           (case dayOfWeek E currentKrono of
              None \<Rightarrow> Inl RangeError
            | Some currentDay \<Rightarrow>
                (let daysToSubtract = (if currentDay > targetDay then currentDay - targetDay
                                       else currentDay + 7 - targetDay)
                 in bind (subtract E currentKrono daysToSubtract Day) (\<lambda>a.
                      bind (startOf E a Day) (\<lambda>r. Inr (Some (k_time r))))))
       | None \<Rightarrow>
       (case match_startOf str of
         Some unit \<Rightarrow> bind (startOf E currentKrono unit) (\<lambda>r. Inr (Some (k_time r)))
       | None \<Rightarrow>
       (case match_endOf str of
         Some unit \<Rightarrow> bind (endOf E currentKrono unit) (\<lambda>r. Inr (Some (k_time r)))
       | None \<Rightarrow> Inr None))))"

datatype input = NoInput | InKrono Krono | InDate "int option" | InNumber number | InString string

definition parseToTime :: "env \<Rightarrow> input \<Rightarrow> string \<Rightarrow> number result" where
  "parseToTime E inp defaultZone =
     (case inp of
        NoInput \<Rightarrow> Inr (Num (now_ms E))
      | InKrono k \<Rightarrow> Inr (Num (k_time k))
      | InDate d \<Rightarrow> Inr (toNumber d)
      | InNumber n \<Rightarrow> bind (validateTimestamp n) (\<lambda>_. Inr n)
      | InString s \<Rightarrow> parseString E (parseNaturalLanguage E) s defaultZone)"

record KronoOptions =
  o_locale :: "string option"
  o_zone :: "string option"
  o_debug :: "bool option"

definition create :: "env \<Rightarrow> input \<Rightarrow> KronoOptions \<Rightarrow> Krono result" where
  "create E inp options =
     (let locale = (case o_locale options of None \<Rightarrow> ''en-GB'' | Some l \<Rightarrow> l);
          zoneName = (case o_zone options of None \<Rightarrow> ''UTC'' | Some z \<Rightarrow> z);
          debug = (case o_debug options of None \<Rightarrow> False | Some d \<Rightarrow> d)
      in bind (parseToTime E inp zoneName) (\<lambda>time. Krono_new E time locale zoneName debug))"



subsection \<open>Zone conversion, comparison, min and max\<close>

definition tz :: "env \<Rightarrow> Krono \<Rightarrow> string \<Rightarrow> Krono result" where
  "tz E k zoneName = Krono_new E (Num (k_time k)) (k_locale k) zoneName (k_debug k)"

definition utc :: "env \<Rightarrow> Krono \<Rightarrow> Krono result" where
  "utc E k = Krono_new E (Num (k_time k)) (k_locale k) ''UTC'' (k_debug k)"

definition local_zone :: "env \<Rightarrow> Krono \<Rightarrow> Krono result" where
  "local_zone E k = Krono_new E (Num (k_time k)) (k_locale k) (systemZone E) (k_debug k)"

definition isBefore :: "Krono \<Rightarrow> Krono \<Rightarrow> bool" where
  "isBefore k other = (k_time k < k_time other)"

definition isAfter :: "Krono \<Rightarrow> Krono \<Rightarrow> bool" where
  "isAfter k other = (k_time k > k_time other)"

text \<open>\<^verbatim>\<open>Krono.min\<close> and \<^verbatim>\<open>Krono.max\<close>: \<^verbatim>\<open>reduce\<close> without an initial value starts from the first element.\<close>

definition Krono_min :: "Krono list \<Rightarrow> Krono result" where
  "Krono_min dates =
     (case dates of
        [] \<Rightarrow> Inl (KronoError NoDatesProvided)
      | d # ds \<Rightarrow> Inr (foldl (\<lambda>min current. if isBefore current min then current else min) d ds))"

definition Krono_max :: "Krono list \<Rightarrow> Krono result" where
  "Krono_max dates =
     (case dates of
        [] \<Rightarrow> Inl (KronoError NoDatesProvided)
      | d # ds \<Rightarrow> Inr (foldl (\<lambda>max current. if isAfter current max then current else max) d ds))"

subsection \<open>The definition of endOf in the specification\<close>

text \<open>
  The specification defines \<open>endOf\<close> as \<open>startOf\<close> advanced by one unit, minus one
  millisecond. \<open>endOf_spec\<close> follows these words; \<open>endOf\<close> above follows the code, which
  advances first.
\<close>

definition endOf_spec :: "env \<Rightarrow> Krono \<Rightarrow> TimeUnit \<Rightarrow> Krono result" where
  "endOf_spec E k unit =
     bind (startOf E k unit) (\<lambda>s. bind (add E s 1 unit) (\<lambda>a. subtract E a 1 Millisecond))"

subsection \<open>Invariants of the instances and of the caches\<close>

definition valid_time :: "int \<Rightarrow> bool" where
  "valid_time t = (\<bar>t\<bar> \<le> MAX_TIME)"

definition valid_number :: "number \<Rightarrow> bool" where
  "valid_number n = (case n of Num t \<Rightarrow> valid_time t | _ \<Rightarrow> False)"

definition zones_ok :: "env \<Rightarrow> string set \<Rightarrow> bool" where
  "zones_ok E V = (\<forall>z \<in> V. zoneOracle E z)"

definition cache_ok :: "env \<Rightarrow> offsetCache \<Rightarrow> bool" where
  "cache_ok E C =
     (\<forall>(z, m) \<in> set (cache C). \<forall>t v. m t = Some v \<longrightarrow> computeOffset E t z = Some v)"


subsection \<open>Concrete environments\<close>

text \<open>
  A zone at a fixed distance from UTC: the civil fields of \<open>t\<close> are the UTC fields of
  \<open>t + off\<close>. The environments below run the code on a host in UTC and on a host one hour
  east of UTC (Europe/Berlin in winter); the clock reads 2025-06-15T14:30:45.123Z, a Sunday;
  America/New_York is four hours behind UTC, as it is in June 2025. \<open>env_lenient\<close> has a
  date parser that accepts day 30 in February and rolls it over into March.
\<close>

definition civil_fixed :: "int \<Rightarrow> int \<Rightarrow> (int \<times> int \<times> int \<times> int \<times> int \<times> int) option" where
  "civil_fixed off t =
     (let l = t + off
      in Some (YearFromTime l, MonthFromTime l + 1, DateFromTime l,
               HourFromTime l, MinFromTime l, SecFromTime l))"

definition env_utc :: env where
  "env_utc =
     \<lparr>now_ms = 1749997845123,
      zoneOracle = (\<lambda>z. z = ''America/New_York'' \<or> z = ''Europe/Berlin''),
      civilOracle = (\<lambda>z t. if z = ''America/New_York'' then civil_fixed (- 14400000) t
                            else if z = ''Europe/Berlin'' then civil_fixed 7200000 t else None),
      hostTZA = (\<lambda>t. 0),
      systemZone = ''UTC'',
      parseFallback = (\<lambda>s. None)\<rparr>"

definition env_berlin :: env where
  "env_berlin = env_utc\<lparr>hostTZA := (\<lambda>t. 3600000), systemZone := ''Europe/Berlin''\<rparr>"

definition env_lenient :: env where
  "env_lenient =
     env_utc\<lparr>parseFallback :=
       (\<lambda>s. if s = ''2025-02-30T12:00:00Z'' then Some 1740916800000 else None)\<rparr>"

definition no_options :: KronoOptions where
  "no_options = \<lparr>o_locale = None, o_zone = None, o_debug = None\<rparr>"

definition in_zone :: "string \<Rightarrow> KronoOptions" where
  "in_zone z = \<lparr>o_locale = None, o_zone = Some z, o_debug = None\<rparr>"

definition empty_cache :: offsetCache where
  "empty_cache = \<lparr>cache = [], maxSize = 100\<rparr>"

text \<open>An instance with the default locale, and the civil date (year, month, day) of an instance.\<close>

definition instance_at :: "string \<Rightarrow> int \<Rightarrow> Krono" where
  "instance_at z t = \<lparr>k_time = t, k_locale = ''en-GB'', k_zone = z, k_debug = False\<rparr>"

definition civil_date :: "env \<Rightarrow> Krono \<Rightarrow> int option \<times> int option \<times> int option" where
  "civil_date E k = (year E k, month E k, day E k)"

text \<open>
  The start of the unit that holds \<open>t\<close>, in UTC, in closed form: what \<open>startOf\<close> computes
  for an instance in UTC (lemma \<open>startOf_switch_value\<close>).
\<close>

definition unitStart :: "TimeUnit \<Rightarrow> int \<Rightarrow> int" where
  "unitStart u t =
     (case u of
        Year \<Rightarrow> DayFromYear (YearFromTime t) * MS_PER_DAY
      | Month \<Rightarrow> (DayNum t - DateFromTime t + 1) * MS_PER_DAY
      | Week \<Rightarrow> (DayNum t - (if WeekDay t = 0 then 6 else WeekDay t - 1)) * MS_PER_DAY
      | Day \<Rightarrow> DayNum t * MS_PER_DAY
      | Hour \<Rightarrow> t - t mod MS_PER_HOUR
      | Minute \<Rightarrow> t - t mod MS_PER_MINUTE
      | Second \<Rightarrow> t - t mod MS_PER_SECOND
      | Millisecond \<Rightarrow> t)"

section \<open>Lemmas\<close>

subsection \<open>Results and the constructor\<close>

lemma bind_Inr_iff: "bind r f = Inr y \<longleftrightarrow> (\<exists>x. r = Inr x \<and> f x = Inr y)"
  by (cases r) (simp_all add: bind_def)

lemma bind_Inr [simp]: "bind (Inr x) f = f x"
  by (simp add: bind_def)

lemma bind_Inl [simp]: "bind (Inl e) f = Inl e"
  by (simp add: bind_def)

lemma validateTimestamp_iff: "validateTimestamp n = Inr () \<longleftrightarrow> valid_number n"
  by (cases n) (simp_all add: validateTimestamp_def valid_number_def valid_time_def)

lemma validateTimestamp_error:
  "\<not> valid_number n \<Longrightarrow> \<exists>r. validateTimestamp n = Inl (KronoError r)"
  by (cases n) (simp_all add: validateTimestamp_def valid_number_def valid_time_def)

lemma Krono_new_Inr_iff:
  "Krono_new E n l z d = Inr k \<longleftrightarrow>
     (\<exists>t. n = Num t \<and> valid_time t \<and> (z = ''UTC'' \<or> isValid_val E z) \<and>
          k = \<lparr>k_time = t, k_locale = l, k_zone = z, k_debug = d\<rparr>)"
  by (cases n) (auto simp: Krono_new_def validateTimestamp_def valid_time_def)


lemma Krono_new_invalid_time:
  "\<not> valid_number n \<Longrightarrow> \<exists>r. Krono_new E n l z d = Inl (KronoError r)"
  using validateTimestamp_error [of n] by (auto simp: Krono_new_def)

lemma Krono_new_invalid_zone:
  "valid_number n \<Longrightarrow> z \<noteq> ''UTC'' \<Longrightarrow> \<not> isValid_val E z \<Longrightarrow>
     Krono_new E n l z d = Inl (KronoTimezoneError z)"
  using validateTimestamp_iff [of n] by (simp add: Krono_new_def)

subsection \<open>The caches only memoise\<close>

lemma isValid_transparent:
  "zones_ok E V \<Longrightarrow> fst (isValid E V z) = isValid_val E z \<and> zones_ok E (snd (isValid E V z))"
  by (auto simp: isValid_def isValid_val_def zones_ok_def)

lemma cache_ok_lookup:
  "cache_ok E C \<Longrightarrow> map_of (cache C) z = Some m \<Longrightarrow> m t = Some v \<Longrightarrow> computeOffset E t z = Some v"
proof -
  assume ok: "cache_ok E C" and m: "map_of (cache C) z = Some m" and v: "m t = Some v"
  from m have "(z, m) \<in> set (cache C)" by (rule map_of_SomeD)
  with ok v show ?thesis unfolding cache_ok_def by blast
qed

lemma cache_ok_subset:
  "cache_ok E C \<Longrightarrow> set (cache C') \<subseteq> set (cache C) \<Longrightarrow> cache_ok E C'"
  unfolding cache_ok_def by blast

lemma cache_ok_lru_get: "cache_ok E C \<Longrightarrow> cache_ok E (snd (lru_get C z))"
proof -
  assume ok: "cache_ok E C"
  show ?thesis
  proof (cases "map_of (cache C) z")
    case None
    then show ?thesis using ok by (simp add: lru_get_def)
  next
    case (Some m)
    then have "(z, m) \<in> set (cache C)" by (rule map_of_SomeD)
    then have "set (cache (snd (lru_get C z))) \<subseteq> set (cache C)"
      using Some by (auto simp: lru_get_def lru_delete_def)
    with ok show ?thesis by (rule cache_ok_subset)
  qed
qed

lemma lru_get_fst: "fst (lru_get C z) = map_of (cache C) z"
  by (simp add: lru_get_def split: option.splits)

lemma cache_ok_lru_set_empty: "cache_ok E C \<Longrightarrow> cache_ok E (lru_set C z Map.empty)"
proof -
  assume ok: "cache_ok E C"
  have sub: "set (case cache C of [] \<Rightarrow> [] | _ # r \<Rightarrow> r) \<subseteq> set (cache C)"
    by (cases "cache C") auto
  have "set (cache (lru_set C z Map.empty)) \<subseteq> insert (z, Map.empty) (set (cache C))"
    using sub by (auto simp: lru_set_def lru_delete_def Let_def)
  with ok show ?thesis unfolding cache_ok_def by fastforce
qed

lemma cache_ok_lru_write:
  "cache_ok E C \<Longrightarrow> (\<forall>t v. m t = Some v \<longrightarrow> computeOffset E t z = Some v) \<Longrightarrow>
     cache_ok E (lru_write C z m)"
  by (auto simp: cache_ok_def lru_write_def split: if_splits)

lemma getOffset_transparent:
  assumes "cache_ok E C"
  shows "fst (getOffset E C t z) = offsetOf E t z \<and> cache_ok E (snd (getOffset E C t z))"
proof (cases "z = ''UTC''")
  case True
  with assms show ?thesis by (simp add: getOffset_def offsetOf_def)
next
  case False
  obtain zc C1 where g: "lru_get C z = (zc, C1)" by (cases "lru_get C z")
  have zc: "zc = map_of (cache C) z" using g lru_get_fst [of C z] by simp
  have C1: "cache_ok E C1" using g cache_ok_lru_get [OF assms, of z] by simp
  show ?thesis
  proof (cases "case zc of None \<Rightarrow> None | Some m \<Rightarrow> m t")
    case (Some v)
    then obtain m where m: "zc = Some m" "m t = Some v" by (cases zc) auto
    have "computeOffset E t z = Some v"
      using cache_ok_lookup [of E C z m t v] assms m zc by simp
    then show ?thesis using False g Some C1 by (simp add: getOffset_def offsetOf_def)
  next
    case None
    show ?thesis
    proof (cases "computeOffset E t z")
      case n: None
      then show ?thesis using False g None C1 by (simp add: getOffset_def offsetOf_def)
    next
      case (Some off)
      show ?thesis
      proof (cases zc)
        case zn: None
        have "cache_ok E (lru_write (lru_set C1 z Map.empty) z (Map.empty(t \<mapsto> off)))"
          by (rule cache_ok_lru_write [OF cache_ok_lru_set_empty [OF C1]]) (simp add: Some)
        then show ?thesis using False g None Some zn by (simp add: getOffset_def offsetOf_def)
      next
        case (Some m)
        note zs = this
        have mt: "m t = None" using None zs by simp
        have "\<forall>t' v. m t' = Some v \<longrightarrow> computeOffset E t' z = Some v"
          using cache_ok_lookup [of E C z m] assms zc zs by auto
        then have "cache_ok E (lru_write C1 z (m(t \<mapsto> off)))"
          using \<open>computeOffset E t z = Some off\<close> by (intro cache_ok_lru_write [OF C1]) auto
        then show ?thesis using False g None \<open>computeOffset E t z = Some off\<close> zs
          by (simp add: getOffset_def offsetOf_def)
      qed
    qed
  qed
qed

subsection \<open>Every operation ends in the constructor\<close>







subsection \<open>Strings that start with a digit, and date validation\<close>

lemma isDigit_iff:
  "isDigit c \<longleftrightarrow> c = CHR ''0'' \<or> c = CHR ''1'' \<or> c = CHR ''2'' \<or> c = CHR ''3'' \<or> c = CHR ''4'' \<or>
     c = CHR ''5'' \<or> c = CHR ''6'' \<or> c = CHR ''7'' \<or> c = CHR ''8'' \<or> c = CHR ''9''"
  by (simp add: isDigit_def)

lemma toLowerChar_digits:
  "toLowerChar CHR ''0'' = CHR ''0''" "toLowerChar CHR ''1'' = CHR ''1''"
  "toLowerChar CHR ''2'' = CHR ''2''" "toLowerChar CHR ''3'' = CHR ''3''"
  "toLowerChar CHR ''4'' = CHR ''4''" "toLowerChar CHR ''5'' = CHR ''5''"
  "toLowerChar CHR ''6'' = CHR ''6''" "toLowerChar CHR ''7'' = CHR ''7''"
  "toLowerChar CHR ''8'' = CHR ''8''" "toLowerChar CHR ''9'' = CHR ''9''"
  by code_simp+

lemma toLowerChar_digit: "isDigit c \<Longrightarrow> toLowerChar c = c"
  unfolding isDigit_iff by (elim disjE) (simp_all only: toLowerChar_digits)

lemma lit_digit_None:
  "isDigit c \<Longrightarrow> \<not> isDigit q \<Longrightarrow> lit (q # qs) (toLowerCase (c # cs)) = None"
  by (auto simp: lit_def starts_with_def toLowerCase_def toLowerChar_digit)

lemma letters_not_digits:
  "\<not> isDigit CHR ''n''" "\<not> isDigit CHR ''l''" "\<not> isDigit CHR ''b''" "\<not> isDigit CHR ''s''"
  "\<not> isDigit CHR ''e''"
  by (simp_all add: isDigit_iff)

lemma natural_digit:
  assumes "isDigit c"
  shows "match_weekday ''next'' (c # cs) = None" "match_weekday ''last'' (c # cs) = None"
        "match_startOf (c # cs) = None" "match_endOf (c # cs) = None"
  by (simp_all add: match_weekday_def match_startOf_def match_endOf_def
      lit_digit_None [OF assms] letters_not_digits)

lemma now_digit: "isDigit c \<Longrightarrow> toLowerCase (c # cs) \<noteq> ''now''"
  using letters_not_digits(1) by (auto simp: toLowerCase_def toLowerChar_digit)

lemma digitsN_first: "digitsN (Suc n) s = Some r \<Longrightarrow> \<exists>c cs. s = c # cs \<and> isDigit c"
  by (cases s) (auto simp: digitsN_def split: if_splits)

lemma ISO_first_digit: "ISO_WITH_ZONE_REGEX s = Some r \<Longrightarrow> \<exists>c cs. s = c # cs \<and> isDigit c"
proof -
  assume "ISO_WITH_ZONE_REGEX s = Some r"
  then obtain q where "digitsN 4 s = Some q"
    by (auto simp: ISO_WITH_ZONE_REGEX_def iso_date_def split: option.splits)
  then show ?thesis using digitsN_first [of 3 s q] by (simp add: numeral_eq_Suc)
qed

lemma parseNaturalLanguage_digit:
  assumes "isDigit c" "valid_time (now_ms E)" "zoneName = ''UTC'' \<or> isValid_val E zoneName"
  shows "parseNaturalLanguage E (c # cs) zoneName = Inr None"
proof -
  have "\<exists>k. Krono_new E (Num (now_ms E)) ''en-GB'' zoneName False = Inr k"
    using assms by (simp add: Krono_new_Inr_iff)
  then show ?thesis
    using natural_digit [OF assms(1), of cs] by (auto simp: parseNaturalLanguage_def)
qed

lemma mod_400_100: "(y::int) mod 400 = 0 \<Longrightarrow> y mod 100 = 0"
  using mod_mod_cancel [of 100 400 y] by simp
lemma mod_100_4: "(y::int) mod 100 = 0 \<Longrightarrow> y mod 4 = 0"
  using mod_mod_cancel [of 4 100 y] by simp












lemma examples_validate:
  "validateDateComponents 2025 2 30 = Inl (KronoParseError InvalidDayForMonth) \<and>
   validateDateComponents 2025 2 29 = Inl (KronoParseError InvalidDayForMonth) \<and>
   validateDateComponents 2024 2 29 = Inr ()"
  by code_simp


lemma parseString_iso_invalid:
  assumes iso: "ISO_WITH_ZONE_REGEX (trim s) = Some (y, m, d)"
      and rel: "RELATIVE_REGEX (toLowerCase (trim s)) = None"
      and bad: "validateDateComponents y m d = Inl e"
      and now: "valid_time (now_ms E)" and zone: "zoneName = ''UTC'' \<or> isValid_val E zoneName"
  shows "parseString E (parseNaturalLanguage E) s zoneName = Inl e"
proof -
  obtain c cs where str: "trim s = c # cs" and c: "isDigit c"
    using ISO_first_digit [OF iso] by blast
  have nl: "parseNaturalLanguage E (c # cs) zoneName = Inr None"
    by (rule parseNaturalLanguage_digit [OF c now zone])
  show ?thesis
    using iso rel bad nl now_digit [OF c, of cs]
    by (simp add: parseString_def Let_def str)
qed

lemma parseString_iso_valid_date:
  assumes iso: "ISO_WITH_ZONE_REGEX s = Some (y, m, d)" and tr: "trim s = s"
      and rel: "RELATIVE_REGEX (toLowerCase s) = None"
      and ok: "validateDateComponents y m d = Inr ()"
      and shape: "utc_datetime_shape s = False" and p: "Date_parse E s = Some t"
      and now: "valid_time (now_ms E)"
  shows "parseString E (parseNaturalLanguage E) s ''UTC'' = Inr (Num t)"
proof -
  obtain c cs where str: "s = c # cs" and c: "isDigit c"
    using ISO_first_digit [OF iso] by blast
  have nl: "parseNaturalLanguage E (c # cs) ''UTC'' = Inr None"
    by (rule parseNaturalLanguage_digit [OF c now]) simp
  show ?thesis
    using iso rel ok nl shape p tr now_digit [OF c, of cs]
    by (simp add: parseString_def Let_def str)
qed

lemma lenient_steps:
  "trim ''2025-02-30 12:00:00'' = ''2025-02-30 12:00:00'' \<and>
   RELATIVE_REGEX (toLowerCase ''2025-02-30 12:00:00'') = None \<and>
   ISO_WITH_ZONE_REGEX ''2025-02-30 12:00:00'' = None \<and>
   utc_datetime_shape ''2025-02-30 12:00:00'' \<and>
   replace_space_T ''2025-02-30 12:00:00'' @ ''Z'' = ''2025-02-30T12:00:00Z'' \<and>
   Date_parse env_lenient ''2025-02-30T12:00:00Z'' = Some 1740916800000"
  by code_simp


subsection \<open>Date fields and their recomposition\<close>

lemma MonthFromTime_range: "0 \<le> MonthFromTime t \<and> MonthFromTime t \<le> 11"
  by (simp add: MonthFromTime_def Let_def)

lemma MakeDay_in_year:
  "0 \<le> m \<Longrightarrow> m \<le> 11 \<Longrightarrow>
   MakeDay y m d = DayFromYear y + monthStart m (if DaysInYear y = 366 then 1 else 0) + d - 1"
  by (simp add: MakeDay_def Let_def)

lemma MakeDay_fields: "MakeDay (YearFromTime t) (MonthFromTime t) (DateFromTime t + n) = DayNum t + n"
  using MonthFromTime_range [of t]
  by (simp add: MakeDay_in_year DateFromTime_def DayWithinYear_def InLeapYear_def)

lemma MakeDay_fields0: "MakeDay (YearFromTime t) (MonthFromTime t) (DateFromTime t) = DayNum t"
  using MakeDay_fields [of t 0] by simp

lemma MakeTime_fields:
  "MakeTime (HourFromTime t) (MinFromTime t) (SecFromTime t) (msFromTime t) = TimeWithinDay t"
proof -
  define s where "s = t div 1000"
  define mi where "mi = s div 60"
  define h where "h = mi div 60"
  have a: "t mod 1000 = t - 1000 * s" unfolding s_def by (simp add: minus_mult_div_eq_mod)
  have b: "s mod 60 = s - 60 * mi" unfolding mi_def by (simp add: minus_mult_div_eq_mod)
  have c: "mi mod 60 = mi - 60 * h" unfolding h_def by (simp add: minus_mult_div_eq_mod)
  have d: "h mod 24 = h - 24 * (h div 24)" by (simp add: minus_mult_div_eq_mod)
  have e: "t mod 86400000 = t - 86400000 * (t div 86400000)" by (simp add: minus_mult_div_eq_mod)
  have mi': "t div 60000 = mi" unfolding mi_def s_def by (simp add: div_mult2_eq [symmetric])
  have h': "t div 3600000 = h" unfolding h_def mi_def s_def by (simp add: div_mult2_eq [symmetric])
  have dd: "t div 86400000 = h div 24" unfolding h_def mi_def s_def by (simp add: div_mult2_eq [symmetric])
  show ?thesis
    unfolding MakeTime_def HourFromTime_def MinFromTime_def SecFromTime_def msFromTime_def
      TimeWithinDay_def mi' h' s_def [symmetric] a b c d e dd
    by simp
qed

lemma MakeDate_split: "MakeDate (DayNum t) (TimeWithinDay t) = t"
  by (simp add: MakeDate_def DayNum_def TimeWithinDay_def)

lemma fullYear_id: "\<not> (0 \<le> y \<and> y \<le> 99) \<Longrightarrow> fullYear y = y"
  by (simp add: fullYear_def)

lemma TimeClip_valid: "valid_time t \<Longrightarrow> TimeClip t = Some t"
  by (simp add: TimeClip_def valid_time_def)

lemma TimeClip_Some: "TimeClip t = Some t' \<longleftrightarrow> t' = t \<and> valid_time t"
  by (auto simp: TimeClip_def valid_time_def)

lemma Date_UTC_fields:
  "valid_time t \<Longrightarrow> \<not> (0 \<le> YearFromTime t \<and> YearFromTime t \<le> 99) \<Longrightarrow>
   Date_UTC (YearFromTime t) (MonthFromTime t) (DateFromTime t)
     (HourFromTime t) (MinFromTime t) (SecFromTime t) (msFromTime t) = Some t"
  by (simp add: Date_UTC_def fullYear_id MakeDay_fields0 MakeTime_fields MakeDate_split TimeClip_valid)

lemma msFromTime_shift: "off mod 1000 = 0 \<Longrightarrow> msFromTime (t + off) = msFromTime t"
proof -
  assume z: "off mod 1000 = 0"
  have "(t + off) mod 1000 = (t + off mod 1000) mod 1000" by (simp add: mod_add_right_eq)
  then show ?thesis using z by (simp add: msFromTime_def)
qed

lemma offsetOf_fixed:
  assumes "z \<noteq> ''UTC''" and "civilOracle E z t = civil_fixed off t"
    and "valid_time t" and "valid_time (t + off)" and "off mod 1000 = 0"
    and "\<not> (0 \<le> YearFromTime (t + off) \<and> YearFromTime (t + off) \<le> 99)"
  shows "offsetOf E (Some t) z = Some (- off)"
proof -
  have "Date_UTC (YearFromTime (t + off)) (MonthFromTime (t + off)) (DateFromTime (t + off))
     (HourFromTime (t + off)) (MinFromTime (t + off)) (SecFromTime (t + off)) (msFromTime t)
     = Some (t + off)"
    using Date_UTC_fields [OF assms(4) assms(6)] msFromTime_shift [OF assms(5), of t] by simp
  then show ?thesis
    using assms(1-3)
    by (simp add: offsetOf_def computeOffset_def Date_of_number_def TimeClip_valid civil_fixed_def
        Let_def nsub_def)
qed

lemma handleDSTAmbiguity_Later: "handleDSTAmbiguity E ts z Later = ts"
  by (simp add: handleDSTAmbiguity_def Let_def)

lemma addTimeWithDST_calendar_via_utc:
  assumes "u = Day \<or> u = Week \<or> u = Month \<or> u = Year"
    and "offsetOf E (Some t) z = Some o1"
    and "addTimeWithDST E (t - o1) n u ''UTC'' = r"
    and "offsetOf E r z = o2"
  shows "addTimeWithDST E t n u z = nadd r o2"
proof -
  have u: "\<not> (UNIT_MULTIPLIERS u \<noteq> None \<and> u \<noteq> Day \<and> u \<noteq> Week)"
    using assms(1) by auto
  have utc: "\<And>x. offsetOf E x ''UTC'' = Some 0" by (simp add: offsetOf_def)
  have n0: "\<And>x. nadd x (Some 0) = x" "\<And>x. nsub (Some x) (Some 0) = Some x"
    by (simp_all add: nadd_def nsub_def split: option.splits)
  from assms(1) show ?thesis
    using assms(2-4) unfolding addTimeWithDST_def
    by (elim disjE) (auto simp: utc n0 handleDSTAmbiguity_Later Let_def nsub_def)
qed

subsection \<open>The year of a day\<close>

lemma div_bounds: "(0::int) < k \<Longrightarrow> k * (x div k) \<le> x \<and> x < k * (x div k) + k"
proof -
  assume k: "0 < k"
  have e: "k * (x div k) = x - x mod k" by (simp add: minus_mod_eq_mult_div)
  have "0 \<le> x mod k" "x mod k < k" using k by simp_all
  then show ?thesis unfolding e by simp
qed

lemma DayFromYear_estimate:
  "146097 * (y - 1970) - 506 \<le> 400 * DayFromYear y \<and>
   400 * DayFromYear y \<le> 146097 * (y - 1970) + 589"
proof -
  define a where "a = (y - 1969) div 4"
  define b where "b = (y - 1901) div 100"
  define c where "c = (y - 1601) div 400"
  have A: "4 * a \<le> y - 1969 \<and> y - 1969 < 4 * a + 4"
    unfolding a_def using div_bounds [of 4 "y - 1969"] by simp
  have B: "100 * b \<le> y - 1901 \<and> y - 1901 < 100 * b + 100"
    unfolding b_def using div_bounds [of 100 "y - 1901"] by simp
  have C: "400 * c \<le> y - 1601 \<and> y - 1601 < 400 * c + 400"
    unfolding c_def using div_bounds [of 400 "y - 1601"] by simp
  have "DayFromYear y = 365 * (y - 1970) + a - b + c"
    by (simp add: DayFromYear_def a_def b_def c_def)
  with A B C show ?thesis by auto
qed

lemma div_succ:
  "(0::int) < k \<Longrightarrow> (x + 1) div k = x div k + (if (x + 1) mod k = 0 then 1 else 0)"
proof -
  assume k: "0 < k"
  define q where "q = x div k"
  define r where "r = x mod k"
  have r: "0 \<le> r" "r < k" using k by (simp_all add: r_def)
  have x: "x + 1 = k * q + (r + 1)" by (simp add: q_def r_def)
  show ?thesis
  proof (cases "r + 1 < k")
    case True
    have "(k * q + (r + 1)) div k = q + (r + 1) div k" using k by (simp only: div_mult_self4)
    moreover have "(r + 1) div k = 0" using r True by (simp add: div_pos_pos_trivial)
    moreover have "(k * q + (r + 1)) mod k = (r + 1) mod k" by (simp only: mod_mult_self4)
    moreover have "(r + 1) mod k = r + 1" using r True by (simp add: mod_pos_pos_trivial)
    ultimately show ?thesis using r unfolding x by (simp add: q_def)
  next
    case False
    with r have e: "r + 1 = k" by simp
    have "x + 1 = k * (q + 1)" unfolding x e by (simp add: algebra_simps)
    then show ?thesis using k by (simp add: q_def)
  qed
qed

lemma mod_shift: "((y::int) + k * n) mod k = y mod k"
  by simp

lemma DayFromYear_step: "DayFromYear (y + 1) = DayFromYear y + DaysInYear y"
proof -
  have m4: "(y - 1969 + 1) mod 4 = y mod 4" using mod_shift [of y 4 "- 492"] by simp
  have m100: "(y - 1901 + 1) mod 100 = y mod 100" using mod_shift [of y 100 "- 19"] by simp
  have m400: "(y - 1601 + 1) mod 400 = y mod 400" using mod_shift [of y 400 "- 4"] by simp
  have a: "(y + 1 - 1969) div 4 = (y - 1969) div 4 + (if y mod 4 = 0 then 1 else 0)"
    using div_succ [of 4 "y - 1969"] m4 by (simp add: algebra_simps)
  have b: "(y + 1 - 1901) div 100 = (y - 1901) div 100 + (if y mod 100 = 0 then 1 else 0)"
    using div_succ [of 100 "y - 1901"] m100 by (simp add: algebra_simps)
  have c: "(y + 1 - 1601) div 400 = (y - 1601) div 400 + (if y mod 400 = 0 then 1 else 0)"
    using div_succ [of 400 "y - 1601"] m400 by (simp add: algebra_simps)
  have d: "y mod 400 = 0 \<Longrightarrow> y mod 100 = 0" "y mod 100 = 0 \<Longrightarrow> y mod 4 = 0"
    using mod_400_100 [of y] mod_100_4 [of y] by simp_all
  show ?thesis
    unfolding DayFromYear_def DaysInYear_def a b c using d by auto
qed

lemma DaysInYear_cases: "DaysInYear y = 365 \<or> DaysInYear y = 366"
  by (simp add: DaysInYear_def)

lemma DayFromYear_mono: "y \<le> y' \<Longrightarrow> DayFromYear y \<le> DayFromYear y'"
proof (induction y' rule: int_ge_induct)
  case base
  show ?case by simp
next
  case (step i)
  then show ?case using DayFromYear_step [of i] DaysInYear_cases [of i] by auto
qed

lemma DayFromYear_strict: "y < y' \<Longrightarrow> DayFromYear y < DayFromYear y'"
  using DayFromYear_mono [of "y + 1" y'] DayFromYear_step [of y] DaysInYear_cases [of y] by auto

lemma YearFromDay_bounds:
  "DayFromYear (YearFromDay d) \<le> d \<and> d < DayFromYear (YearFromDay d + 1)"
proof -
  define q where "q = (d * 400) div 146097"
  have Q: "146097 * q \<le> d * 400 \<and> d * 400 < 146097 * q + 146097"
    unfolding q_def using div_bounds [of 146097 "d * 400"] by simp
  have lo: "DayFromYear (1970 + q - 1) \<le> d"
    using DayFromYear_estimate [of "1970 + q - 1"] Q by auto
  have hi: "d < DayFromYear (1970 + q + 2)"
    using DayFromYear_estimate [of "1970 + q + 2"] Q by auto
  have s: "1970 + q + 2 = (1970 + q + 1) + 1" "1970 + q = (1970 + q - 1) + 1" by simp_all
  show ?thesis
    using lo hi unfolding YearFromDay_def q_def [symmetric] Let_def
    by (auto simp: add.assoc)
qed

lemma YearFromDay_unique:
  assumes "DayFromYear y \<le> d" and "d < DayFromYear (y + 1)"
  shows "YearFromDay d = y"
proof (rule ccontr)
  assume n: "YearFromDay d \<noteq> y"
  have b: "DayFromYear (YearFromDay d) \<le> d \<and> d < DayFromYear (YearFromDay d + 1)"
    by (rule YearFromDay_bounds)
  show False
  proof (cases "YearFromDay d < y")
    case True
    then have "DayFromYear (YearFromDay d + 1) \<le> DayFromYear y"
      by (intro DayFromYear_mono) simp
    with b assms show False by linarith
  next
    case False
    with n have "y + 1 \<le> YearFromDay d" by simp
    then have "DayFromYear (y + 1) \<le> DayFromYear (YearFromDay d)" by (rule DayFromYear_mono)
    with b assms show False by linarith
  qed
qed

lemma DayWithinYear_range: "0 \<le> DayWithinYear t \<and> DayWithinYear t < DaysInYear (YearFromTime t)"
  using YearFromDay_bounds [of "DayNum t"] DayFromYear_step [of "YearFromTime t"]
  by (simp add: DayWithinYear_def YearFromTime_def)

subsection \<open>The start of a unit in UTC\<close>

lemma TimeWithinDay_range: "0 \<le> TimeWithinDay t \<and> TimeWithinDay t < MS_PER_DAY"
  by (simp add: TimeWithinDay_def)

lemma DayNum_MakeDate:
  assumes "0 \<le> tm" and "tm < MS_PER_DAY"
  shows "DayNum (MakeDate d tm) = d" and "TimeWithinDay (MakeDate d tm) = tm"
proof -
  have "(d * MS_PER_DAY + tm) div MS_PER_DAY = d + tm div MS_PER_DAY"
    by (simp only: div_mult_self3)
  then show "DayNum (MakeDate d tm) = d"
    using assms by (simp add: DayNum_def MakeDate_def div_pos_pos_trivial)
  have "(d * MS_PER_DAY + tm) mod MS_PER_DAY = tm mod MS_PER_DAY"
    by (simp only: mod_mult_self3)
  then show "TimeWithinDay (MakeDate d tm) = tm"
    using assms by (simp add: TimeWithinDay_def MakeDate_def mod_pos_pos_trivial)
qed

lemma DayNum_day_start: "DayNum (d * MS_PER_DAY) = d" "TimeWithinDay (d * MS_PER_DAY) = 0"
  using DayNum_MakeDate [of 0 d] by (simp_all add: MakeDate_def)

lemma time_split: "t = DayNum t * MS_PER_DAY + TimeWithinDay t"
  by (simp add: DayNum_def TimeWithinDay_def)

lemma ms_parts:
  "SecFromTime t * MS_PER_SECOND + msFromTime t = t mod MS_PER_MINUTE"
  "MinFromTime t * MS_PER_MINUTE + SecFromTime t * MS_PER_SECOND + msFromTime t = t mod MS_PER_HOUR"
proof -
  show a: "SecFromTime t * MS_PER_SECOND + msFromTime t = t mod MS_PER_MINUTE"
    using zmod_zmult2_eq [of 60 t 1000] by (simp add: SecFromTime_def msFromTime_def)
  show "MinFromTime t * MS_PER_MINUTE + SecFromTime t * MS_PER_SECOND + msFromTime t = t mod MS_PER_HOUR"
    using zmod_zmult2_eq [of 60 t 60000] a by (simp add: MinFromTime_def)
qed

lemma switch_second:
  "MakeDate (DayNum t) (MakeTime (HourFromTime t) (MinFromTime t) (SecFromTime t) 0) = t - t mod MS_PER_SECOND"
  using MakeTime_fields [of t] time_split [of t]
  by (simp add: MakeDate_def MakeTime_def msFromTime_def)

lemma switch_minute:
  "MakeDate (DayNum t) (MakeTime (HourFromTime t) (MinFromTime t) 0 0) = t - t mod MS_PER_MINUTE"
  using MakeTime_fields [of t] time_split [of t] ms_parts(1) [of t]
  by (simp add: MakeDate_def MakeTime_def)

lemma switch_hour:
  "MakeDate (DayNum t) (MakeTime (HourFromTime t) 0 0 0) = t - t mod MS_PER_HOUR"
  using MakeTime_fields [of t] time_split [of t] ms_parts(2) [of t]
  by (simp add: MakeDate_def MakeTime_def)

lemma setUTCHours4_zero: "setUTCHours4 (Some t) 0 0 0 0 = TimeClip (DayNum t * MS_PER_DAY)"
  by (simp add: setUTCHours4_def MakeDate_def MakeTime_def)

text \<open>The intermediate Date of the two-step cases, and the switch in closed form.\<close>

lemma day_then_midnight:
  "setUTCHours4 (TimeClip (MakeDate d (TimeWithinDay t))) 0 0 0 0 =
     (if valid_time (MakeDate d (TimeWithinDay t)) then TimeClip (d * MS_PER_DAY) else None)"
proof (cases "valid_time (MakeDate d (TimeWithinDay t))")
  case True
  have "DayNum (MakeDate d (TimeWithinDay t)) = d"
    using TimeWithinDay_range [of t] by (intro DayNum_MakeDate) simp_all
  then show ?thesis using True by (simp add: TimeClip_valid setUTCHours4_zero)
next
  case False
  then show ?thesis by (simp add: TimeClip_def valid_time_def setUTCHours4_def)
qed

lemma setUTCDate_shift:
  "setUTCDate (Some t) (Some dt) =
     TimeClip (MakeDate (DayNum t + (dt - DateFromTime t)) (TimeWithinDay t))"
  using MakeDay_fields [of t "dt - DateFromTime t"] by (simp add: setUTCDate_def)

lemma setUTCMonth2_january:
  "setUTCMonth2 (Some t) 0 1 = TimeClip (MakeDate (DayFromYear (YearFromTime t)) (TimeWithinDay t))"
  by (simp add: setUTCMonth2_def MakeDay_in_year monthStart_def)

lemma month_cases:
  "0 \<le> (m::int) \<Longrightarrow> m \<le> 11 \<Longrightarrow>
   m = 0 \<or> m = 1 \<or> m = 2 \<or> m = 3 \<or> m = 4 \<or> m = 5 \<or> m = 6 \<or> m = 7 \<or> m = 8 \<or> m = 9 \<or> m = 10
     \<or> m = 11"
  by arith

lemma InLeapYear_cases: "InLeapYear t = 0 \<or> InLeapYear t = 1"
  by (simp add: InLeapYear_def)

lemma DaysInYear_leap: "DaysInYear (YearFromTime t) = 365 + InLeapYear t"
  using DaysInYear_cases [of "YearFromTime t"] by (auto simp: InLeapYear_def)

lemma monthStart_le_day:
  "monthStart (MonthFromTime t) (InLeapYear t) \<le> DayWithinYear t"
  using DayWithinYear_range [of t] InLeapYear_cases [of t]
  by (auto simp: MonthFromTime_def monthStart_def Let_def)

lemma DateFromTime_ge1: "1 \<le> DateFromTime t"
  using monthStart_le_day [of t] by (simp add: DateFromTime_def)

lemma MonthFromTime_at_start:
  assumes "DayWithinYear t = monthStart m (InLeapYear t)" and "0 \<le> m" and "m \<le> 11"
  shows "MonthFromTime t = m"
  using month_cases [OF assms(2,3)] InLeapYear_cases [of t] assms(1)
  by (elim disjE) (simp_all add: MonthFromTime_def monthStart_def Let_def)

lemma YearFromTime_eq:
  "DayFromYear y \<le> DayNum t \<Longrightarrow> DayNum t < DayFromYear (y + 1) \<Longrightarrow> YearFromTime t = y"
  by (simp add: YearFromTime_def YearFromDay_unique)

lemma month_first_fields:
  assumes "DayNum t' = DayNum t - DateFromTime t + 1"
  shows "YearFromTime t' = YearFromTime t" and "MonthFromTime t' = MonthFromTime t"
    and "DateFromTime t' = 1"
proof -
  have fd: "DayNum t' = DayFromYear (YearFromTime t) + monthStart (MonthFromTime t) (InLeapYear t)"
    using assms by (simp add: DateFromTime_def DayWithinYear_def)
  have ms: "0 \<le> monthStart (MonthFromTime t) (InLeapYear t)"
    using InLeapYear_cases [of t] by (auto simp: monthStart_def)
  have up: "DayNum t < DayFromYear (YearFromTime t + 1)"
    using YearFromDay_bounds [of "DayNum t"] by (simp add: YearFromTime_def)
  show y: "YearFromTime t' = YearFromTime t"
    using fd ms up DateFromTime_ge1 [of t] assms by (intro YearFromTime_eq) simp_all
  have l: "InLeapYear t' = InLeapYear t" by (simp add: InLeapYear_def y)
  have d: "DayWithinYear t' = monthStart (MonthFromTime t) (InLeapYear t')"
    using fd by (simp add: DayWithinYear_def y l)
  show m: "MonthFromTime t' = MonthFromTime t"
    using MonthFromTime_range [of t] by (intro MonthFromTime_at_start [OF d]) simp_all
  show "DateFromTime t' = 1"
    using d by (simp add: DateFromTime_def m)
qed

lemma year_first_fields:
  assumes "DayNum t' = DayFromYear y"
  shows "YearFromTime t' = y"
  using assms DayFromYear_strict [of y "y + 1"] by (intro YearFromTime_eq) simp_all

lemma unitStart_idem: "unitStart u (unitStart u t) = unitStart u t"
proof (cases u)
  case Year
  have "YearFromTime (DayFromYear (YearFromTime t) * MS_PER_DAY) = YearFromTime t"
    by (rule year_first_fields) (rule DayNum_day_start)
  then show ?thesis using Year by (simp add: unitStart_def)
next
  case Month
  let ?fd = "DayNum t - DateFromTime t + 1"
  have "DateFromTime (?fd * MS_PER_DAY) = 1"
    by (rule month_first_fields(3) [of _ t]) (rule DayNum_day_start)
  then show ?thesis using Month by (simp add: unitStart_def DayNum_day_start del: distrib_right_numeral distrib_left_numeral left_diff_distrib_numeral right_diff_distrib_numeral)
next
  case Week
  define k where "k = (if WeekDay t = 0 then 6 else WeekDay t - 1)"
  have w: "0 \<le> WeekDay t" "WeekDay t < 7" by (simp_all add: WeekDay_def)
  have "(DayNum t + 4 - k) mod 7 = 1"
  proof (cases "WeekDay t = 0")
    case True
    then have "(DayNum t + 4) mod 7 = 0" by (simp add: WeekDay_def)
    then have "(DayNum t + 4 - 6) mod 7 = 1" by presburger
    with True show ?thesis by (simp add: k_def)
  next
    case False
    have "(DayNum t + 4 - ((DayNum t + 4) mod 7 - 1)) mod 7 = 1" by presburger
    with False show ?thesis by (simp add: k_def WeekDay_def)
  qed
  then have "WeekDay ((DayNum t - k) * MS_PER_DAY) = 1"
    unfolding WeekDay_def DayNum_day_start by (simp add: algebra_simps)
  then show ?thesis using Week unfolding k_def
    by (simp add: unitStart_def DayNum_day_start del: distrib_right_numeral distrib_left_numeral left_diff_distrib_numeral right_diff_distrib_numeral)
next
  case Day
  then show ?thesis by (simp add: unitStart_def DayNum_day_start)
next
  case Hour
  have "(t - t mod MS_PER_HOUR) mod MS_PER_HOUR = 0" by (simp add: mod_diff_left_eq [symmetric])
  with Hour show ?thesis by (simp add: unitStart_def)
next
  case Minute
  have "(t - t mod MS_PER_MINUTE) mod MS_PER_MINUTE = 0" by (simp add: mod_diff_left_eq [symmetric])
  with Minute show ?thesis by (simp add: unitStart_def)
next
  case Second
  have "(t - t mod MS_PER_SECOND) mod MS_PER_SECOND = 0" by (simp add: mod_diff_left_eq [symmetric])
  with Second show ?thesis by (simp add: unitStart_def)
next
  case Millisecond
  then show ?thesis by (simp add: unitStart_def)
qed

lemma startOf_switch_value:
  assumes "startOf_switch u (Some t) = Some s" and "valid_time t"
  shows "s = unitStart u t \<and> valid_time s"
proof -
  have two: "\<And>d. setUTCHours4 (TimeClip (MakeDate d (TimeWithinDay t))) 0 0 0 0 = Some s \<Longrightarrow>
      s = d * MS_PER_DAY \<and> valid_time s"
    by (auto simp: day_then_midnight TimeClip_Some split: if_splits)
  show ?thesis
  proof (cases u)
    case Year
    from assms(1) have "setUTCHours4 (TimeClip (MakeDate (DayFromYear (YearFromTime t))
        (TimeWithinDay t))) 0 0 0 0 = Some s"
      by (simp add: Year startOf_switch_def setUTCMonth2_january)
    from two [OF this] show ?thesis by (auto simp: Year unitStart_def)
  next
    case Month
    from assms(1) have "setUTCHours4 (TimeClip (MakeDate (DayNum t + (1 - DateFromTime t))
        (TimeWithinDay t))) 0 0 0 0 = Some s"
      by (simp add: Month startOf_switch_def setUTCDate_shift)
    from two [OF this] show ?thesis by (auto simp: Month unitStart_def algebra_simps)
  next
    case Week
    define k where "k = (if WeekDay t = 0 then 6 else WeekDay t - 1)"
    have "setUTCDate (Some t) (Some (DateFromTime t - k)) =
        TimeClip (MakeDate (DayNum t - k) (TimeWithinDay t))"
      by (simp add: setUTCDate_shift)
    with assms(1) have "setUTCHours4 (TimeClip (MakeDate (DayNum t - k)
        (TimeWithinDay t))) 0 0 0 0 = Some s"
      by (simp add: Week startOf_switch_def getUTCDay_def getUTCDate_def nsub_def Let_def k_def)
    from two [OF this] show ?thesis by (auto simp: Week unitStart_def k_def)
  next
    case Day
    then show ?thesis
      using assms by (auto simp: startOf_switch_def setUTCHours4_zero unitStart_def TimeClip_Some)
  next
    case Hour
    then show ?thesis
      using assms
      by (auto simp: startOf_switch_def setUTCMinutes3_def switch_hour unitStart_def TimeClip_Some)
  next
    case Minute
    then show ?thesis
      using assms
      by (auto simp: startOf_switch_def setUTCSeconds2_def switch_minute unitStart_def TimeClip_Some)
  next
    case Second
    then show ?thesis
      using assms
      by (auto simp: startOf_switch_def setUTCMilliseconds_def switch_second unitStart_def TimeClip_Some)
  next
    case Millisecond
    then show ?thesis
      using assms by (auto simp: startOf_switch_def unitStart_def)
  qed
qed

lemma startOf_utc_value:
  assumes "k_zone k = ''UTC''" and "valid_time (k_time k)" and "startOf E k u = Inr s"
  shows "k_time s = unitStart u (k_time k) \<and> k_zone s = ''UTC''"
proof -
  from assms(1,3) obtain t' where
    n: "toNumber (startOf_switch u (Date_of_number (Some (k_time k)))) = Num t'" and
    s: "s = \<lparr>k_time = t', k_locale = k_locale k, k_zone = ''UTC'', k_debug = k_debug k\<rparr>"
    by (auto simp: startOf_def Let_def Krono_new_Inr_iff)
  from n assms(2) have "startOf_switch u (Some (k_time k)) = Some t'"
    by (auto simp: toNumber_def Date_of_number_def TimeClip_valid split: option.splits)
  from startOf_switch_value [OF this assms(2)] s show ?thesis by simp
qed

subsection \<open>Stepping through startOf and add in a zone\<close>

lemma startOf_zoned_steps:
  assumes "z \<noteq> ''UTC''" and "isValid_val E z"
    and "getZoneTime E (instance_at z t) = Some l"
    and "valid_time l" and "\<not> (0 \<le> YearFromTime l \<and> YearFromTime l \<le> 99)"
    and "startOf_switch u (Some l) = md"
    and "dateString_of md = ds"
    and "parseString E (noPattern E) ds z = Inr (Num t')"
    and "valid_time t'"
  shows "startOf E (instance_at z t) u = Inr (instance_at z t')"
  using assms Date_UTC_fields [OF assms(4,5)]
  by (simp add: startOf_def Let_def Date_of_number_def TimeClip_valid Krono_new_def
      validateTimestamp_def instance_at_def valid_time_def)

lemma add_zoned_steps:
  assumes "z = ''UTC'' \<or> isValid_val E z"
    and "getZoneTime E (instance_at z t) = Some l"
    and "addTimeWithDST E t n u z = Some t'"
    and "valid_time t'"
  shows "add E (instance_at z t) n u = Inr (instance_at z t')"
  using assms
  by (auto simp: add_def toISOString_def toNumber_def valid_time_def Krono_new_def
      validateTimestamp_def instance_at_def)

lemma subtract_ms_zoned:
  assumes "z = ''UTC'' \<or> isValid_val E z"
    and "getZoneTime E (instance_at z t) = Some l"
    and "valid_time (t - 1)"
  shows "subtract E (instance_at z t) 1 Millisecond = Inr (instance_at z (t - 1))"
  unfolding subtract_def
  by (rule add_zoned_steps [OF assms(1,2) _ assms(3)]) (simp add: addTimeWithDST_def)

lemma dateString_of_fields:
  "dateString_of (Some t) =
     showNum (Some (YearFromTime t)) @ ''-'' @
     padStart0 2 (showNum (Some (MonthFromTime t + 1))) @ ''-'' @
     padStart0 2 (showNum (Some (DateFromTime t))) @ ''T'' @
     padStart0 2 (showNum (Some (HourFromTime t))) @ '':'' @
     padStart0 2 (showNum (Some (MinFromTime t))) @ '':'' @
     padStart0 2 (showNum (Some (SecFromTime t))) @ ''.'' @
     padStart0 3 (showNum (Some (msFromTime t)))"
  by (simp add: dateString_of_def getUTCFullYear_def getUTCMonth_def getUTCDate_def
      getUTCHours_def getUTCMinutes_def getUTCSeconds_def getUTCMilliseconds_def nadd_def)

lemma padStart0_facts:
  "padStart0 2 [a] = [CHR ''0'', a]" "padStart0 2 [a, b] = [a, b]"
  "padStart0 3 [a] = [CHR ''0'', CHR ''0'', a]" "padStart0 3 [a, b] = [CHR ''0'', a, b]"
  "padStart0 3 [a, b, c] = [a, b, c]"
  by (simp_all add: padStart0_def numeral_2_eq_2 numeral_3_eq_3)

lemma parseString_nl_cong:
  "nl (trim s) z = nl' (trim s) z \<Longrightarrow> parseString E nl s z = parseString E nl' s z"
  by (simp add: parseString_def Let_def)

lemma subtract_ms_time: "subtract E s 1 Millisecond = Inr e \<Longrightarrow> k_time e = k_time s - 1"
  by (auto simp: subtract_def add_def addTimeWithDST_def toNumber_def bind_Inr_iff Krono_new_Inr_iff)

lemma endOf_one_ms_before:
  "endOf E k u = Inr e \<Longrightarrow>
   \<exists>a s. add E k 1 u = Inr a \<and> startOf E a u = Inr s \<and> valueOf e = valueOf s - 1"
  by (auto simp: endOf_def bind_Inr_iff valueOf_def dest: subtract_ms_time)

subsection \<open>The string that startOf formats matches no natural-language pattern\<close>

lemma trim_first: "\<not> isSpace c \<Longrightarrow> \<exists>cs'. trim (c # cs) = c # cs'"
proof -
  assume c: "\<not> isSpace c"
  have "dropWhile isSpace (rev cs @ [c]) = dropWhile isSpace (rev cs) @ [c] \<or>
        dropWhile isSpace (rev cs @ [c]) = [c]"
    using c by (simp add: dropWhile_append)
  then obtain ws where "dropWhile isSpace (rev cs @ [c]) = ws @ [c]" by auto
  then show ?thesis using c by (simp add: trim_def)
qed

lemma lit_first_None:
  "toLowerChar c \<noteq> q \<Longrightarrow> lit (q # qs) (toLowerCase (c # cs)) = None"
  by (auto simp: lit_def starts_with_def toLowerCase_def)

lemma natural_first:
  assumes "toLowerChar c \<notin> set ''nlbse''"
  shows "match_weekday ''next'' (c # cs) = None" "match_weekday ''last'' (c # cs) = None"
        "match_startOf (c # cs) = None" "match_endOf (c # cs) = None"
  using assms
  by (simp_all add: match_weekday_def match_startOf_def match_endOf_def lit_first_None)

lemma parseNaturalLanguage_first:
  "toLowerChar c \<notin> set ''nlbse'' \<Longrightarrow> parseNaturalLanguage E (c # cs) z = noPattern E (c # cs) z"
  by (simp add: parseNaturalLanguage_def noPattern_def natural_first)

lemma digit_nth: "n < 10 \<Longrightarrow> isDigit (''0123456789'' ! n)"
  using nth_mem [of n "''0123456789''"] by (simp add: isDigit_def)

lemma showNat_first: "\<exists>c cs. showNat n = c # cs \<and> isDigit c"
proof (induction n rule: showNat.induct)
  case (1 n)
  show ?case
  proof (cases "n < 10")
    case True
    have "showNat n = [''0123456789'' ! n]"
      by (subst showNat.simps) (simp only: True if_True)
    with digit_nth [OF True] show ?thesis by (simp del: showNat.simps)
  next
    case False
    from 1 [OF False] obtain c cs where "showNat (n div 10) = c # cs" "isDigit c" by blast
    moreover have "showNat n = showNat (n div 10) @ [''0123456789'' ! (n mod 10)]"
      by (subst showNat.simps) (simp only: False if_False)
    ultimately show ?thesis by (simp del: showNat.simps)
  qed
qed

lemma first_char_facts:
  "\<not> isSpace CHR ''-''" "toLowerChar CHR ''-'' \<notin> set ''nlbse''"
  by code_simp+

lemma digit_facts:
  assumes "isDigit c"
  shows "\<not> isSpace c" and "toLowerChar c \<notin> set ''nlbse''"
  using assms unfolding isDigit_iff
  by (elim disjE; simp add: isSpace_def toLowerChar_digits)+

lemma showNum_first:
  "\<exists>c cs. showNum (Some n) = c # cs \<and> \<not> isSpace c \<and> toLowerChar c \<notin> set ''nlbse''"
proof (cases "n < 0")
  case True
  then show ?thesis using first_char_facts by (simp add: showNum_def del: showNat.simps)
next
  case False
  obtain c cs where "showNat (nat n) = c # cs" "isDigit c" using showNat_first by blast
  then show ?thesis using False digit_facts [of c] by (simp add: showNum_def del: showNat.simps)
qed

lemma nan_string_natural:
  "trim ''NaN-NaN-NaNTNaN:NaN:NaN.NaN'' = ''NaN-NaN-NaNTNaN:NaN:NaN.NaN''"
  "match_weekday ''next'' ''NaN-NaN-NaNTNaN:NaN:NaN.NaN'' = None"
  "match_weekday ''last'' ''NaN-NaN-NaNTNaN:NaN:NaN.NaN'' = None"
  "match_startOf ''NaN-NaN-NaNTNaN:NaN:NaN.NaN'' = None"
  "match_endOf ''NaN-NaN-NaNTNaN:NaN:NaN.NaN'' = None"
  by code_simp+

lemma dateString_of_None: "dateString_of None = ''NaN-NaN-NaNTNaN:NaN:NaN.NaN''"
  by code_simp

lemma parseNaturalLanguage_noPattern:
  "parseString E (parseNaturalLanguage E) (dateString_of md) z =
   parseString E (noPattern E) (dateString_of md) z"
proof (rule parseString_nl_cong, cases md)
  case None
  show "parseNaturalLanguage E (trim (dateString_of md)) z = noPattern E (trim (dateString_of md)) z"
    unfolding None dateString_of_None nan_string_natural(1)
    by (simp add: parseNaturalLanguage_def noPattern_def nan_string_natural)
next
  case (Some t)
  obtain c cs where y: "showNum (Some (YearFromTime t)) = c # cs"
    and c: "\<not> isSpace c" "toLowerChar c \<notin> set ''nlbse''"
    using showNum_first by blast
  obtain r where "dateString_of md = c # r"
    unfolding Some dateString_of_fields y by simp
  then obtain r' where "trim (dateString_of md) = c # r'"
    using trim_first [OF c(1)] by auto
  then show "parseNaturalLanguage E (trim (dateString_of md)) z = noPattern E (trim (dateString_of md)) z"
    using parseNaturalLanguage_first [OF c(2)] by simp
qed

subsection \<open>Evaluation steps for the examples\<close>

lemma ago_steps:
  "trim ''3 days ago'' = ''3 days ago'' \<and> trim ''3 DAYS AGO'' = ''3 DAYS AGO'' \<and>
   toLowerCase ''3 days ago'' = ''3 days ago'' \<and> toLowerCase ''3 DAYS AGO'' = ''3 days ago'' \<and>
   RELATIVE_REGEX ''3 days ago'' = Some (''3'', Day) \<and> parseInt ''3'' = 3 \<and>
   str_includes ''ago'' ''3 days ago'' \<and> \<not> str_includes ''ago'' ''3 DAYS AGO'' \<and>
   addTimeWithDST env_utc 1749997845123 (- 3) Day ''UTC'' = Some 1749738645123 \<and>
   addTimeWithDST env_utc 1749997845123 3 Day ''UTC'' = Some 1750257045123"
  by code_simp

lemma utc_iso_ok:
  "valid_time (k_time k) \<Longrightarrow> k_zone k = ''UTC'' \<Longrightarrow> toISOString E k = Inr ()"
  by (simp add: toISOString_def getZoneTime_def Date_of_number_def TimeClip_def valid_time_def)

lemma month_steps_berlin:
  "addTimeWithDST env_berlin 1738281600000 1 Month ''UTC'' = Some 1740614400000 \<and>
   addTimeWithDST env_berlin 1706659200000 1 Month ''UTC'' = Some 1709078400000"
  by code_simp

lemma month_steps_utc:
  "addTimeWithDST env_utc 1738281600000 1 Month ''UTC'' = Some 1740700800000 \<and>
   addTimeWithDST env_utc 1706659200000 1 Month ''UTC'' = Some 1709164800000"
  by code_simp

lemma month_civil:
  "(YearFromTime 1738281600000, MonthFromTime 1738281600000 + 1, DateFromTime 1738281600000) = (2025, 1, 31) \<and>
   (YearFromTime 1706659200000, MonthFromTime 1706659200000 + 1, DateFromTime 1706659200000) = (2024, 1, 31) \<and>
   (YearFromTime 1740614400000, MonthFromTime 1740614400000 + 1, DateFromTime 1740614400000) = (2025, 2, 27) \<and>
   (YearFromTime 1709078400000, MonthFromTime 1709078400000 + 1, DateFromTime 1709078400000) = (2024, 2, 28) \<and>
   (YearFromTime 1740700800000, MonthFromTime 1740700800000 + 1, DateFromTime 1740700800000) = (2025, 2, 28) \<and>
   (YearFromTime 1709164800000, MonthFromTime 1709164800000 + 1, DateFromTime 1709164800000) = (2024, 2, 29)"
  by code_simp

lemma civil_date_utc:
  "valid_time t \<Longrightarrow>
   civil_date E (instance_at ''UTC'' t) = (Some (YearFromTime t), Some (MonthFromTime t + 1), Some (DateFromTime t))"
  by (simp add: civil_date_def year_def month_def day_def getZoneTime_def instance_at_def
      Date_of_number_def TimeClip_def valid_time_def getUTCFullYear_def getUTCMonth_def
      getUTCDate_def nadd_def)

lemma add_utc_instance_at:
  "valid_time t \<Longrightarrow> addTimeWithDST E t n u ''UTC'' = Some t' \<Longrightarrow> valid_time t' \<Longrightarrow>
   add E (instance_at ''UTC'' t) n u = Inr (instance_at ''UTC'' t')"
  by (simp add: add_def utc_iso_ok instance_at_def toNumber_def Krono_new_def
      validateTimestamp_def valid_time_def)

lemma jan31_steps:
  "trim ''2025-01-31'' = ''2025-01-31'' \<and> trim ''2024-01-31'' = ''2024-01-31'' \<and>
   RELATIVE_REGEX (toLowerCase ''2025-01-31'') = None \<and>
   RELATIVE_REGEX (toLowerCase ''2024-01-31'') = None \<and>
   ISO_WITH_ZONE_REGEX ''2025-01-31'' = Some (2025, 1, 31) \<and>
   ISO_WITH_ZONE_REGEX ''2024-01-31'' = Some (2024, 1, 31) \<and>
   validateDateComponents 2025 1 31 = Inr () \<and> validateDateComponents 2024 1 31 = Inr () \<and>
   utc_datetime_shape ''2025-01-31'' = False \<and> utc_datetime_shape ''2024-01-31'' = False \<and>
   Date_parse E ''2025-01-31'' = Some 1738281600000 \<and>
   Date_parse E ''2024-01-31'' = Some 1706659200000"
  by code_simp

lemma create_jan31:
  assumes "valid_time (now_ms E)"
  shows "create E (InString ''2025-01-31'') no_options = Inr (instance_at ''UTC'' 1738281600000)"
    and "create E (InString ''2024-01-31'') no_options = Inr (instance_at ''UTC'' 1706659200000)"
proof -
  have "parseString E (parseNaturalLanguage E) ''2025-01-31'' ''UTC'' = Inr (Num 1738281600000)"
    using jan31_steps [of E] assms by (intro parseString_iso_valid_date [of _ 2025 1 31]) simp_all
  then show "create E (InString ''2025-01-31'') no_options = Inr (instance_at ''UTC'' 1738281600000)"
    by (simp add: create_def parseToTime_def no_options_def Krono_new_def validateTimestamp_def
        instance_at_def)
  have "parseString E (parseNaturalLanguage E) ''2024-01-31'' ''UTC'' = Inr (Num 1706659200000)"
    using jan31_steps [of E] assms by (intro parseString_iso_valid_date [of _ 2024 1 31]) simp_all
  then show "create E (InString ''2024-01-31'') no_options = Inr (instance_at ''UTC'' 1706659200000)"
    by (simp add: create_def parseToTime_def no_options_def Krono_new_def validateTimestamp_def
        instance_at_def)
qed

lemma ny_zone: "isValid_val env_utc ''America/New_York''" "''America/New_York'' \<noteq> ''UTC''"
  by (simp_all add: isValid_val_def env_utc_def)

lemma ny_offset:
  assumes "valid_time t" and "valid_time (t - 14400000)"
    and "YearFromTime (t - 14400000) = 2025"
  shows "offsetOf env_utc (Some t) ''America/New_York'' = Some 14400000"
  using offsetOf_fixed [of "''America/New_York''" env_utc t "- 14400000"] assms
  by (simp add: env_utc_def)

lemma ny_zone_time:
  assumes "valid_time t" and "valid_time (t - 14400000)"
    and "YearFromTime (t - 14400000) = 2025"
  shows "getZoneTime env_utc (instance_at ''America/New_York'' t) = Some (t - 14400000)"
  using ny_offset [OF assms] assms(2)
  by (simp add: getZoneTime_def instance_at_def nsub_def Date_of_number_def TimeClip_valid)

lemma years_2025:
  "YearFromTime 1749983400000 = 2025 \<and> YearFromTime 1749931200000 = 2025"
  "YearFromTime 1747296000000 = 2025 \<and> YearFromTime 1749960000000 = 2025"
  "YearFromTime 1749974400000 = 2025 \<and> YearFromTime 1748721600000 = 2025"
  "YearFromTime 1746043200000 = 2025 \<and> YearFromTime 1748620800000 = 2025"
  "YearFromTime 1748635200000 = 2025"
  by code_simp+

lemma start_steps:
  "startOf_switch Day (Some 1749983400000) = Some 1749945600000"
  "startOf_switch Day (Some 1749931200000) = Some 1749859200000"
  "startOf_switch Month (Some 1749974400000) = Some 1748736000000"
  "startOf_switch Month (Some 1747296000000) = Some 1746057600000"
  by code_simp+

lemma start_fields:
  "(YearFromTime 1749945600000, MonthFromTime 1749945600000, DateFromTime 1749945600000,
    HourFromTime 1749945600000, MinFromTime 1749945600000, SecFromTime 1749945600000,
    msFromTime 1749945600000) = (2025, 5, 15, 0, 0, 0, 0) \<and>
   (YearFromTime 1749859200000, MonthFromTime 1749859200000, DateFromTime 1749859200000,
    HourFromTime 1749859200000, MinFromTime 1749859200000, SecFromTime 1749859200000,
    msFromTime 1749859200000) = (2025, 5, 14, 0, 0, 0, 0) \<and>
   (YearFromTime 1748736000000, MonthFromTime 1748736000000, DateFromTime 1748736000000,
    HourFromTime 1748736000000, MinFromTime 1748736000000, SecFromTime 1748736000000,
    msFromTime 1748736000000) = (2025, 5, 1, 0, 0, 0, 0) \<and>
   (YearFromTime 1746057600000, MonthFromTime 1746057600000, DateFromTime 1746057600000,
    HourFromTime 1746057600000, MinFromTime 1746057600000, SecFromTime 1746057600000,
    msFromTime 1746057600000) = (2025, 4, 1, 0, 0, 0, 0)"
  by code_simp

lemma start_strings:
  "dateString_of (Some 1749945600000) = ''2025-06-15T00:00:00.000''"
  "dateString_of (Some 1749859200000) = ''2025-06-14T00:00:00.000''"
  "dateString_of (Some 1748736000000) = ''2025-06-01T00:00:00.000''"
  "dateString_of (Some 1746057600000) = ''2025-05-01T00:00:00.000''"
  using start_fields by (simp_all add: dateString_of_fields showNum_def padStart0_facts)

lemma ny_parse_steps:
  "parseString env_utc (\<lambda>s z. Inr None) ''2025-06-15T00:00:00.000'' ''America/New_York'' = Inr (Num 1749945600000)"
  "parseString env_utc (\<lambda>s z. Inr None) ''2025-06-14T00:00:00.000'' ''America/New_York'' = Inr (Num 1749859200000)"
  "parseString env_utc (\<lambda>s z. Inr None) ''2025-06-01T00:00:00.000'' ''America/New_York'' = Inr (Num 1748736000000)"
  "parseString env_utc (\<lambda>s z. Inr None) ''2025-05-01T00:00:00.000'' ''America/New_York'' = Inr (Num 1746057600000)"
  by code_simp+

lemma noPattern_ny: "noPattern env_utc s ''America/New_York'' = Inr None"
  by (simp add: noPattern_def Krono_new_def validateTimestamp_def env_utc_def isValid_val_def)

lemma ny_parse:
  "parseString env_utc (noPattern env_utc) ''2025-06-15T00:00:00.000'' ''America/New_York'' = Inr (Num 1749945600000)"
  "parseString env_utc (noPattern env_utc) ''2025-06-14T00:00:00.000'' ''America/New_York'' = Inr (Num 1749859200000)"
  "parseString env_utc (noPattern env_utc) ''2025-06-01T00:00:00.000'' ''America/New_York'' = Inr (Num 1748736000000)"
  "parseString env_utc (noPattern env_utc) ''2025-05-01T00:00:00.000'' ''America/New_York'' = Inr (Num 1746057600000)"
  using ny_parse_steps
  by (simp_all add: parseString_nl_cong [of "noPattern env_utc" _ _ "\<lambda>s z. Inr None"] noPattern_ny)

lemma ny_startOf:
  "startOf env_utc (instance_at ''America/New_York'' 1749997800000) Day
     = Inr (instance_at ''America/New_York'' 1749945600000)"
  "startOf env_utc (instance_at ''America/New_York'' 1749945600000) Day
     = Inr (instance_at ''America/New_York'' 1749859200000)"
  "startOf env_utc (instance_at ''America/New_York'' 1749988800000) Month
     = Inr (instance_at ''America/New_York'' 1748736000000)"
  "startOf env_utc (instance_at ''America/New_York'' 1747310400000) Month
     = Inr (instance_at ''America/New_York'' 1746057600000)"
proof -
  have z: "getZoneTime env_utc (instance_at ''America/New_York'' 1749997800000) = Some 1749983400000"
    "getZoneTime env_utc (instance_at ''America/New_York'' 1749945600000) = Some 1749931200000"
    "getZoneTime env_utc (instance_at ''America/New_York'' 1749988800000) = Some 1749974400000"
    "getZoneTime env_utc (instance_at ''America/New_York'' 1747310400000) = Some 1747296000000"
    using years_2025 by (simp_all add: ny_zone_time valid_time_def)
  show "startOf env_utc (instance_at ''America/New_York'' 1749997800000) Day
     = Inr (instance_at ''America/New_York'' 1749945600000)"
    by (rule startOf_zoned_steps [OF ny_zone(2,1) z(1) _ _ start_steps(1) start_strings(1) ny_parse(1)])
       (simp_all add: valid_time_def years_2025)
  show "startOf env_utc (instance_at ''America/New_York'' 1749945600000) Day
     = Inr (instance_at ''America/New_York'' 1749859200000)"
    by (rule startOf_zoned_steps [OF ny_zone(2,1) z(2) _ _ start_steps(2) start_strings(2) ny_parse(2)])
       (simp_all add: valid_time_def years_2025)
  show "startOf env_utc (instance_at ''America/New_York'' 1749988800000) Month
     = Inr (instance_at ''America/New_York'' 1748736000000)"
    by (rule startOf_zoned_steps [OF ny_zone(2,1) z(3) _ _ start_steps(3) start_strings(3) ny_parse(3)])
       (simp_all add: valid_time_def years_2025)
  show "startOf env_utc (instance_at ''America/New_York'' 1747310400000) Month
     = Inr (instance_at ''America/New_York'' 1746057600000)"
    by (rule startOf_zoned_steps [OF ny_zone(2,1) z(4) _ _ start_steps(4) start_strings(4) ny_parse(4)])
       (simp_all add: valid_time_def years_2025)
qed

lemma civil_date_ny:
  assumes "valid_time t" and "valid_time (t - 14400000)" and "YearFromTime (t - 14400000) = 2025"
  shows "civil_date env_utc (instance_at ''America/New_York'' t) =
           (Some 2025, Some (MonthFromTime (t - 14400000) + 1), Some (DateFromTime (t - 14400000)))"
    and "hour env_utc (instance_at ''America/New_York'' t) = Some (HourFromTime (t - 14400000))"
  using ny_zone_time [OF assms] assms(3)
  by (simp_all add: civil_date_def year_def month_def day_def hour_def getUTCFullYear_def
      getUTCMonth_def getUTCDate_def getUTCHours_def nadd_def)

lemma ny_civil_fields:
  "(MonthFromTime 1749931200000, DateFromTime 1749931200000, HourFromTime 1749931200000) = (5, 14, 20)"
  "(MonthFromTime 1748721600000, DateFromTime 1748721600000, HourFromTime 1748721600000) = (4, 31, 20)"
  by code_simp+

lemma month_steps_ny:
  "addTimeWithDST env_utc 1747296000000 1 Month ''UTC'' = Some 1749974400000"
  "addTimeWithDST env_utc 1746043200000 1 Month ''UTC'' = Some 1748635200000"
  by code_simp+

lemma ny_add_month:
  "add env_utc (instance_at ''America/New_York'' 1747310400000) 1 Month
     = Inr (instance_at ''America/New_York'' 1749988800000)"
  "add env_utc (instance_at ''America/New_York'' 1746057600000) 1 Month
     = Inr (instance_at ''America/New_York'' 1748649600000)"
proof -
  have o: "offsetOf env_utc (Some 1747310400000) ''America/New_York'' = Some 14400000"
    "offsetOf env_utc (Some 1749974400000) ''America/New_York'' = Some 14400000"
    "offsetOf env_utc (Some 1746057600000) ''America/New_York'' = Some 14400000"
    "offsetOf env_utc (Some 1748635200000) ''America/New_York'' = Some 14400000"
    using years_2025 by (simp_all add: ny_offset valid_time_def)
  have z: "getZoneTime env_utc (instance_at ''America/New_York'' 1747310400000) = Some 1747296000000"
    "getZoneTime env_utc (instance_at ''America/New_York'' 1746057600000) = Some 1746043200000"
    using years_2025 by (simp_all add: ny_zone_time valid_time_def)
  have a: "addTimeWithDST env_utc 1747310400000 1 Month ''America/New_York'' = Some 1749988800000"
    using addTimeWithDST_calendar_via_utc [OF _ o(1), of Month 1 "Some 1749974400000" "Some 14400000"]
      month_steps_ny o(2) by (simp add: nadd_def)
  have b: "addTimeWithDST env_utc 1746057600000 1 Month ''America/New_York'' = Some 1748649600000"
    using addTimeWithDST_calendar_via_utc [OF _ o(3), of Month 1 "Some 1748635200000" "Some 14400000"]
      month_steps_ny o(4) by (simp add: nadd_def)
  show "add env_utc (instance_at ''America/New_York'' 1747310400000) 1 Month
     = Inr (instance_at ''America/New_York'' 1749988800000)"
    by (rule add_zoned_steps [OF _ z(1) a]) (simp_all add: ny_zone valid_time_def)
  show "add env_utc (instance_at ''America/New_York'' 1746057600000) 1 Month
     = Inr (instance_at ''America/New_York'' 1748649600000)"
    by (rule add_zoned_steps [OF _ z(2) b]) (simp_all add: ny_zone valid_time_def)
qed

lemma ny_subtract_ms:
  "subtract env_utc (instance_at ''America/New_York'' 1748736000000) 1 Millisecond
     = Inr (instance_at ''America/New_York'' 1748735999999)"
  "subtract env_utc (instance_at ''America/New_York'' 1748649600000) 1 Millisecond
     = Inr (instance_at ''America/New_York'' 1748649599999)"
proof -
  have z: "getZoneTime env_utc (instance_at ''America/New_York'' 1748736000000) = Some 1748721600000"
    "getZoneTime env_utc (instance_at ''America/New_York'' 1748649600000) = Some 1748635200000"
    using years_2025 by (simp_all add: ny_zone_time valid_time_def)
  show "subtract env_utc (instance_at ''America/New_York'' 1748736000000) 1 Millisecond
     = Inr (instance_at ''America/New_York'' 1748735999999)"
    using subtract_ms_zoned [OF _ z(1)] by (simp add: ny_zone valid_time_def)
  show "subtract env_utc (instance_at ''America/New_York'' 1748649600000) 1 Millisecond
     = Inr (instance_at ''America/New_York'' 1748649599999)"
    using subtract_ms_zoned [OF _ z(2)] by (simp add: ny_zone valid_time_def)
qed

subsection \<open>Operations on an instance in UTC\<close>

lemma Krono_new_invalid: "\<not> valid_number n \<Longrightarrow> Krono_new E n l z d = Inl (KronoError BadTimestamp)"
  by (cases n) (simp_all add: Krono_new_def validateTimestamp_def valid_number_def valid_time_def)








subsection \<open>Instances at the limits of the range, outside UTC\<close>












subsection \<open>A date followed by a space and a time\<close>

text \<open>
  The UTC stage of the parser takes a space and a \<^verbatim>\<open>T\<close> between date and time alike; the
  strict ISO pattern takes the \<^verbatim>\<open>T\<close> only. So the fields of \<^verbatim>\<open>"2025-02-30T12:00:00"\<close> are
  validated and the string raises a parse error, while \<^verbatim>\<open>"2025-02-30 12:00:00"\<close> reaches
  the platform's parser with its fields unchecked: where that parser rolls day 30 of February
  over into March, as in \<open>env_lenient\<close>, the string is accepted as 2025-03-02T12:00:00Z.
  The two forms of one date are treated differently; the second escapes the validation.
\<close>

lemma T_form_steps:
  "ISO_WITH_ZONE_REGEX (trim ''2025-02-30T12:00:00'') = Some (2025, 2, 30)"
  "RELATIVE_REGEX (toLowerCase (trim ''2025-02-30T12:00:00'')) = None"
  by code_simp+

lemma space_separated_date_not_validated:
  "create env_lenient (InString ''2025-02-30T12:00:00'') no_options =
     Inl (KronoParseError InvalidDayForMonth) \<and>
   create env_lenient (InString ''2025-02-30 12:00:00'') no_options =
     Inr \<lparr>k_time = 1740916800000, k_locale = ''en-GB'', k_zone = ''UTC'', k_debug = False\<rparr>"
proof -
  have n1: "valid_time (now_ms env_lenient)"
    by (simp add: valid_time_def env_lenient_def env_utc_def)
  have d: "isDigit CHR ''2''" by (simp add: isDigit_iff)
  have v: "validateDateComponents 2025 2 30 = Inl (KronoParseError InvalidDayForMonth)"
    using examples_validate by simp
  have t: "parseString env_lenient (parseNaturalLanguage env_lenient) ''2025-02-30T12:00:00'' ''UTC''
      = Inl (KronoParseError InvalidDayForMonth)"
    by (rule parseString_iso_invalid [OF T_form_steps v n1]) simp
  have nl1: "parseNaturalLanguage env_lenient ''2025-02-30 12:00:00'' ''UTC'' = Inr None"
    using parseNaturalLanguage_digit [OF d n1, of "''UTC''" "''025-02-30 12:00:00''"] by simp
  have low1: "toLowerCase ''2025-02-30 12:00:00'' \<noteq> ''now''"
    using now_digit [OF d, of "''025-02-30 12:00:00''"] by simp
  have c1: "parseString env_lenient (parseNaturalLanguage env_lenient) ''2025-02-30 12:00:00'' ''UTC''
      = Inr (Num 1740916800000)"
    using lenient_steps nl1 low1 by (simp add: parseString_def Let_def)
  show ?thesis
    using t c1
    by (simp add: create_def parseToTime_def no_options_def Krono_new_def validateTimestamp_def)
qed

section \<open>The claims\<close>

subsection \<open>C6: the UTC sentinel\<close>

text \<open>
  C6. For the zone \<^verbatim>\<open>"UTC"\<close> the offset resolver returns 0 for every timestamp and hands
  the offset cache back as it received it: the cache is neither read nor written. Hence the
  civil time of \<open>t\<close> in UTC is \<open>t\<close> itself, and the derived operations leave \<open>t\<close> alone.
\<close>

theorem getOffset_UTC:
  "getOffset E C timestamp ''UTC'' = (Some 0, C) \<and>
   nsub (Some t) (fst (getOffset E C (Some t) ''UTC'')) = Some t \<and>
   offsetOf E timestamp ''UTC'' = Some 0 \<and>
   convertToZone E (Some t) ''UTC'' ''UTC'' = Some t \<and>
   handleDSTAmbiguity E (Some t) ''UTC'' p = Some t"
  by (simp add: getOffset_def nsub_def offsetOf_def convertToZone_def handleDSTAmbiguity_def)

theorem getOffset_UTC_witness:
  "getOffset env_utc empty_cache (Some 1749997845123) ''UTC'' = (Some 0, empty_cache)"
  using getOffset_UTC [of env_utc empty_cache "Some 1749997845123"] by simp

subsection \<open>C8: min and max\<close>

text \<open>
  C8. \<open>Krono.min\<close> and \<open>Krono.max\<close> of the empty list raise the generic domain error
  (a plain \<open>KronoError\<close>); of a one-element list they return that element.
\<close>

theorem min_max_empty_single:
  "Krono_min [] = Inl (KronoError NoDatesProvided) \<and>
   Krono_max [] = Inl (KronoError NoDatesProvided) \<and>
   Krono_min [k] = Inr k \<and> Krono_max [k] = Inr k"
  by (simp add: Krono_min_def Krono_max_def)

theorem min_max_empty_single_witness:
  "Krono_min [\<lparr>k_time = 5, k_locale = ''en-GB'', k_zone = ''UTC'', k_debug = False\<rparr>] =
     Inr \<lparr>k_time = 5, k_locale = ''en-GB'', k_zone = ''UTC'', k_debug = False\<rparr>"
  using min_max_empty_single
    [of "\<lparr>k_time = 5, k_locale = ''en-GB'', k_zone = ''UTC'', k_debug = False\<rparr>"]
  by simp

subsection \<open>C9: zone conversion\<close>

text \<open>
  C9. For an instance \<open>k\<close> (its timestamp is valid) and a zone \<open>z\<close> that is \<^verbatim>\<open>"UTC"\<close> or
  valid, \<open>tz\<close> returns \<open>k\<close> with the zone field replaced and nothing else changed; so do
  \<open>utc\<close> and, when the host's zone is valid, \<open>local\<close>. Converting to \<open>z\<close> and back to
  UTC gives the timestamp of \<open>k\<close>.
\<close>

theorem tz_changes_only_zone:
  assumes "valid_time (k_time k)" and "z = ''UTC'' \<or> isValid_val E z"
  shows "tz E k z = Inr (k\<lparr>k_zone := z\<rparr>) \<and>
         utc E k = Inr (k\<lparr>k_zone := ''UTC''\<rparr>) \<and>
         (systemZone E = ''UTC'' \<or> isValid_val E (systemZone E) \<longrightarrow>
            local_zone E k = Inr (k\<lparr>k_zone := systemZone E\<rparr>)) \<and>
         bind (tz E k z) (\<lambda>a. bind (utc E a) (\<lambda>b. Inr (valueOf b))) = Inr (k_time k)"
  using assms
  by (cases k) (auto simp: tz_def utc_def local_zone_def Krono_new_def validateTimestamp_def
      valid_time_def valueOf_def)

theorem tz_changes_only_zone_witness:
  "tz env_utc \<lparr>k_time = 1749997845123, k_locale = ''en-GB'', k_zone = ''UTC'', k_debug = False\<rparr>
      ''America/New_York'' =
     Inr \<lparr>k_time = 1749997845123, k_locale = ''en-GB'', k_zone = ''America/New_York'',
          k_debug = False\<rparr> \<and>
   local_zone env_berlin
      \<lparr>k_time = 1749997845123, k_locale = ''en-GB'', k_zone = ''UTC'', k_debug = False\<rparr> =
     Inr \<lparr>k_time = 1749997845123, k_locale = ''en-GB'', k_zone = ''Europe/Berlin'',
          k_debug = False\<rparr>"
proof -
  let ?k = "\<lparr>k_time = 1749997845123, k_locale = ''en-GB'', k_zone = ''UTC'', k_debug = False\<rparr>"
  have v: "valid_time (k_time ?k)" by (simp add: valid_time_def)
  have z: "''America/New_York'' = ''UTC'' \<or> isValid_val env_utc ''America/New_York''"
    by (simp add: isValid_val_def env_utc_def)
  have z': "''UTC'' = ''UTC'' \<or> isValid_val env_berlin ''UTC''" by simp
  have s: "systemZone env_berlin = ''UTC'' \<or> isValid_val env_berlin (systemZone env_berlin)"
    by (simp add: isValid_val_def env_berlin_def env_utc_def)
  show ?thesis
    using tz_changes_only_zone [OF v z] tz_changes_only_zone [OF v z'] s
    by (simp add: env_berlin_def env_utc_def)
qed

subsection \<open>C10: every instance has a valid timestamp\<close>




subsection \<open>C7: an invalid zone at construction\<close>

text \<open>
  C7, as the code has it. With a zone name that is not \<^verbatim>\<open>"UTC"\<close> and that the validity oracle
  rejects, neither the constructor nor \<open>create\<close> ever returns an instance: there is no
  fallback to UTC and no instance with the invalid zone. Which error is raised depends on the
  timestamp, because its validation runs before the zone is looked at: the zone error when
  the timestamp is valid, the generic domain error when it is not. For a number, a Date and
  an instance the timestamp is the one passed in; for a string and for no input it is the
  reading of the clock, taken before the string is parsed, so with a clock in range a string
  always raises the zone error.
\<close>

theorem invalid_zone_raises:
  assumes "z \<noteq> ''UTC''" and "\<not> isValid_val E z"
  shows "(\<forall>k. Krono_new E n l z d \<noteq> Inr k) \<and>
         (\<forall>k. create E inp (opts\<lparr>o_zone := Some z\<rparr>) \<noteq> Inr k) \<and>
         Krono_new E n l z d =
           (if valid_number n then Inl (KronoTimezoneError z) else Inl (KronoError BadTimestamp)) \<and>
         create E (InNumber n) (opts\<lparr>o_zone := Some z\<rparr>) =
           (if valid_number n then Inl (KronoTimezoneError z) else Inl (KronoError BadTimestamp)) \<and>
         create E (InDate dt) (opts\<lparr>o_zone := Some z\<rparr>) =
           (if valid_number (toNumber dt) then Inl (KronoTimezoneError z)
            else Inl (KronoError BadTimestamp)) \<and>
         create E (InKrono k0) (opts\<lparr>o_zone := Some z\<rparr>) =
           (if valid_time (k_time k0) then Inl (KronoTimezoneError z)
            else Inl (KronoError BadTimestamp)) \<and>
         create E NoInput (opts\<lparr>o_zone := Some z\<rparr>) =
           (if valid_time (now_ms E) then Inl (KronoTimezoneError z)
            else Inl (KronoError BadTimestamp)) \<and>
         create E (InString s) (opts\<lparr>o_zone := Some z\<rparr>) =
           (if valid_time (now_ms E) then Inl (KronoTimezoneError z)
            else Inl (KronoError BadTimestamp))"
proof -
  have new: "\<And>n l d. Krono_new E n l z d =
      (if valid_number n then Inl (KronoTimezoneError z) else Inl (KronoError BadTimestamp))"
    using assms by (simp add: Krono_new_invalid_zone Krono_new_invalid)
  have vt: "\<And>t. valid_number (Num t) = valid_time t" by (simp add: valid_number_def)
  have vn: "\<And>n. validateTimestamp n =
      (if valid_number n then Inr () else Inl (KronoError BadTimestamp))"
    subgoal for n by (cases n) (simp_all add: validateTimestamp_def valid_number_def valid_time_def)
    done
  have a: "\<forall>k. Krono_new E n l z d \<noteq> Inr k" using assms by (simp add: Krono_new_Inr_iff)
  have b: "\<forall>k. create E inp (opts\<lparr>o_zone := Some z\<rparr>) \<noteq> Inr k"
    using assms by (auto simp: create_def Let_def bind_Inr_iff Krono_new_Inr_iff)
  have c: "create E (InNumber n) (opts\<lparr>o_zone := Some z\<rparr>) =
           (if valid_number n then Inl (KronoTimezoneError z) else Inl (KronoError BadTimestamp))"
    by (simp add: create_def parseToTime_def new vn)
  have e: "create E (InDate dt) (opts\<lparr>o_zone := Some z\<rparr>) =
           (if valid_number (toNumber dt) then Inl (KronoTimezoneError z)
            else Inl (KronoError BadTimestamp))"
    by (simp add: create_def parseToTime_def new)
  have f: "create E (InKrono k0) (opts\<lparr>o_zone := Some z\<rparr>) =
           (if valid_time (k_time k0) then Inl (KronoTimezoneError z)
            else Inl (KronoError BadTimestamp))"
    by (simp add: create_def parseToTime_def new vt)
  have g: "create E NoInput (opts\<lparr>o_zone := Some z\<rparr>) =
           (if valid_time (now_ms E) then Inl (KronoTimezoneError z)
            else Inl (KronoError BadTimestamp))"
    by (simp add: create_def parseToTime_def new vt)
  have h: "create E (InString s) (opts\<lparr>o_zone := Some z\<rparr>) =
           (if valid_time (now_ms E) then Inl (KronoTimezoneError z)
            else Inl (KronoError BadTimestamp))"
    by (simp add: create_def parseToTime_def parseString_def parseNaturalLanguage_def Let_def new vt)
  show ?thesis using a b c e f g h new [of n l d] by blast
qed

theorem invalid_zone_raises_witness:
  "create env_utc (InString ''2025-06-15'') (in_zone ''Invalid/Zone'')
     = Inl (KronoTimezoneError ''Invalid/Zone'') \<and>
   Krono_new env_utc (Num 0) ''en-GB'' ''Invalid/Zone'' False
     = Inl (KronoTimezoneError ''Invalid/Zone'') \<and>
   Krono_new env_utc PosInfinity ''en-GB'' ''Invalid/Zone'' False = Inl (KronoError BadTimestamp)"
proof -
  have z: "''Invalid/Zone'' \<noteq> ''UTC''" by simp
  have v: "\<not> isValid_val env_utc ''Invalid/Zone''" by (simp add: isValid_val_def env_utc_def)
  have n: "valid_time (now_ms env_utc)" by (simp add: valid_time_def env_utc_def)
  have o: "no_options\<lparr>o_zone := Some ''Invalid/Zone''\<rparr> = in_zone ''Invalid/Zone''"
    by (simp add: no_options_def in_zone_def)
  show ?thesis
    using invalid_zone_raises [OF z v, where n = "Num 0" and l = "''en-GB''" and d = False
        and opts = no_options and s = "''2025-06-15''"]
      invalid_zone_raises [OF z v, where n = PosInfinity and l = "''en-GB''" and d = False]
      n o
    by (simp add: valid_number_def valid_time_def)
qed

text \<open>
  C7 as stated fails: the error is not always the zone error. A timestamp that is NaN or out
  of range, or an invalid Date, is rejected with the generic domain error before the zone is
  looked at, also when the zone is invalid.
\<close>

theorem invalid_zone_counterexample:
  "''Invalid/Zone'' \<noteq> ''UTC'' \<and> \<not> isValid_val env_utc ''Invalid/Zone'' \<and>
   create env_utc (InNumber NaN) (in_zone ''Invalid/Zone'') = Inl (KronoError BadTimestamp) \<and>
   create env_utc (InNumber (Num 8640000000000001)) (in_zone ''Invalid/Zone'')
     = Inl (KronoError BadTimestamp) \<and>
   create env_utc (InDate None) (in_zone ''Invalid/Zone'') = Inl (KronoError BadTimestamp)"
  by (simp add: isValid_val_def env_utc_def create_def parseToTime_def in_zone_def
      validateTimestamp_def Krono_new_def toNumber_def)

subsection \<open>C3: calendar validity of ISO strings\<close>




subsection \<open>C4: relative expressions and the word ago\<close>

text \<open>
  C4 says that the amount is negated whenever the word \<^verbatim>\<open>ago\<close> is present, in every casing
  of the input. The code matches the pattern on the lower-cased string but looks for
  \<^verbatim>\<open>ago\<close> in the string as it was typed. With the clock at 2025-06-15T14:30:45.123Z,
  \<^verbatim>\<open>"3 days ago"\<close> gives the instant three days before the clock, and \<^verbatim>\<open>"3 DAYS AGO"\<close>
  gives the instant three days after it.
\<close>

theorem ago_is_case_sensitive:
  "now_ms env_utc = 1749997845123 \<and>
   create env_utc (InString ''3 days ago'') no_options =
     Inr \<lparr>k_time = 1749997845123 - 3 * MS_PER_DAY, k_locale = ''en-GB'', k_zone = ''UTC'', k_debug = False\<rparr> \<and>
   create env_utc (InString ''3 DAYS AGO'') no_options =
     Inr \<lparr>k_time = 1749997845123 + 3 * MS_PER_DAY, k_locale = ''en-GB'', k_zone = ''UTC'', k_debug = False\<rparr>"
proof -
  have n: "now_ms env_utc = 1749997845123" "valid_time (now_ms env_utc)"
    by (simp_all add: valid_time_def env_utc_def)
  have d: "isDigit CHR ''3''" by (simp add: isDigit_iff)
  have nl: "parseNaturalLanguage env_utc ''3 days ago'' ''UTC'' = Inr None"
           "parseNaturalLanguage env_utc ''3 DAYS AGO'' ''UTC'' = Inr None"
    using parseNaturalLanguage_digit [OF d n(2), of "''UTC''"] by simp_all
  have c1: "parseString env_utc (parseNaturalLanguage env_utc) ''3 days ago'' ''UTC''
      = Inr (Num 1749738645123)"
    using ago_steps nl n(1) by (simp add: parseString_def Let_def toNumber_def)
  have c2: "parseString env_utc (parseNaturalLanguage env_utc) ''3 DAYS AGO'' ''UTC''
      = Inr (Num 1750257045123)"
    using ago_steps nl n(1) by (simp add: parseString_def Let_def toNumber_def)
  show ?thesis
    using c1 c2 n(1)
    by (simp add: create_def parseToTime_def no_options_def Krono_new_def validateTimestamp_def)
qed

subsection \<open>C1: adding a month at the end of a month\<close>

text \<open>
  C1 says that adding a month clamps the day to the length of the target month, so that
  2025-01-31 plus one month is 2025-02-28 and 2024-01-31 plus one month is 2024-02-29. The
  code reads the length of the target month from a Date built in the host's local time with
  the UTC getter. On a host in UTC the results are the 28th and the 29th; on a host one hour
  east of UTC they are 2025-02-27 and 2024-02-28.
\<close>

theorem month_end_on_eastern_host:
  "create env_berlin (InString ''2025-01-31'') no_options = Inr (instance_at ''UTC'' 1738281600000) \<and>
   create env_berlin (InString ''2024-01-31'') no_options = Inr (instance_at ''UTC'' 1706659200000) \<and>
   civil_date env_berlin (instance_at ''UTC'' 1738281600000) = (Some 2025, Some 1, Some 31) \<and>
   bind (add env_berlin (instance_at ''UTC'' 1738281600000) 1 Month) (\<lambda>k. Inr (civil_date env_berlin k))
     = Inr (Some 2025, Some 2, Some 27) \<and>
   civil_date env_berlin (instance_at ''UTC'' 1706659200000) = (Some 2024, Some 1, Some 31) \<and>
   bind (add env_berlin (instance_at ''UTC'' 1706659200000) 1 Month) (\<lambda>k. Inr (civil_date env_berlin k))
     = Inr (Some 2024, Some 2, Some 28) \<and>
   bind (add env_utc (instance_at ''UTC'' 1738281600000) 1 Month) (\<lambda>k. Inr (civil_date env_utc k))
     = Inr (Some 2025, Some 2, Some 28) \<and>
   bind (add env_utc (instance_at ''UTC'' 1706659200000) 1 Month) (\<lambda>k. Inr (civil_date env_utc k))
     = Inr (Some 2024, Some 2, Some 29)"
proof -
  have v: "valid_time 1738281600000" "valid_time 1706659200000" "valid_time 1740614400000"
    "valid_time 1709078400000" "valid_time 1740700800000" "valid_time 1709164800000"
    by (simp_all add: valid_time_def)
  have a: "add env_berlin (instance_at ''UTC'' 1738281600000) 1 Month = Inr (instance_at ''UTC'' 1740614400000)"
    "add env_berlin (instance_at ''UTC'' 1706659200000) 1 Month = Inr (instance_at ''UTC'' 1709078400000)"
    "add env_utc (instance_at ''UTC'' 1738281600000) 1 Month = Inr (instance_at ''UTC'' 1740700800000)"
    "add env_utc (instance_at ''UTC'' 1706659200000) 1 Month = Inr (instance_at ''UTC'' 1709164800000)"
    using month_steps_berlin month_steps_utc v by (simp_all add: add_utc_instance_at)
  have n: "valid_time (now_ms env_berlin)"
    by (simp add: valid_time_def env_berlin_def env_utc_def)
  show ?thesis
    using month_civil create_jan31 [OF n] by (simp add: a civil_date_utc v)
qed

subsection \<open>C5: startOf applied twice\<close>

text \<open>
  C5 says that \<open>startOf\<close> is idempotent for every instant in any zone. Outside UTC the code
  formats the civil start of the unit as a string without an offset and parses it again;
  the platform reads such a string in the zone of the host, not in the zone of the instance.
  On a host in UTC, the start of the day of 2025-06-15T14:30:00Z in America/New_York comes
  out as 2025-06-15T00:00:00Z, which is 20:00 of June 14 in New York, and the start of the
  day of that instant is 2025-06-14T00:00:00Z: the second application moves the instant
  again.
\<close>

theorem startOf_twice_in_zone:
  "startOf env_utc (instance_at ''America/New_York'' 1749997800000) Day
     = Inr (instance_at ''America/New_York'' 1749945600000) \<and>
   startOf env_utc (instance_at ''America/New_York'' 1749945600000) Day
     = Inr (instance_at ''America/New_York'' 1749859200000) \<and>
   civil_date env_utc (instance_at ''America/New_York'' 1749945600000) = (Some 2025, Some 6, Some 14) \<and>
   hour env_utc (instance_at ''America/New_York'' 1749945600000) = Some 20"
  using ny_startOf(1,2) years_2025 ny_civil_fields
  by (simp add: civil_date_ny valid_time_def)

subsection \<open>C2: endOf and the start of the next period\<close>

text \<open>
  C2 says that \<open>endOf\<close> is one millisecond before \<open>startOf\<close> of the instant advanced by one
  unit (which holds by the definition of \<open>endOf\<close>, lemma \<open>endOf_one_ms_before\<close>), and that
  this is the definition of the specification, \<open>startOf\<close> advanced by one unit minus one
  millisecond, so that \<open>endOf\<close> is one millisecond before the start of the next period. On a
  host in UTC, for 2025-05-15T12:00:00Z in America/New_York and the unit month, \<open>endOf\<close>
  is 2025-05-31T23:59:59.999Z while the definition of the specification gives
  2025-05-30T23:59:59.999Z; and one millisecond after \<open>endOf\<close> it is 20:00 of May 31 in
  New York, not the start of June.
\<close>

theorem endOf_month_in_zone:
  "endOf env_utc (instance_at ''America/New_York'' 1747310400000) Month
     = Inr (instance_at ''America/New_York'' 1748735999999) \<and>
   endOf_spec env_utc (instance_at ''America/New_York'' 1747310400000) Month
     = Inr (instance_at ''America/New_York'' 1748649599999) \<and>
   civil_date env_utc (instance_at ''America/New_York'' (1748735999999 + 1)) = (Some 2025, Some 5, Some 31) \<and>
   hour env_utc (instance_at ''America/New_York'' (1748735999999 + 1)) = Some 20"
  using ny_add_month ny_startOf(3,4) ny_subtract_ms years_2025 ny_civil_fields
  by (simp add: endOf_def endOf_spec_def civil_date_ny valid_time_def)

end
